theory Spec2Isabelle
  imports Main "HOL-Library.Word" "HOL-Library.Char_ord" "HOL-Library.List_Lexorder"
begin

unbundle bit_operations_syntax

section \<open>Data model (model.go and the WmClient struct of wmclient.go)\<close>

text \<open>
  Go strings are byte sequences and are compared bytewise, which is the order that
  \<open>Char_ord\<close> and \<open>List_Lexorder\<close> put on \<^typ>\<open>string\<close>.
  A Go slice can be \<open>nil\<close>, and the code tests for it, so a slice is an optional list:
  \<open>None\<close> is the nil slice, \<open>Some []\<close> an allocated empty one.  A nil map
  and a nil pointer are \<open>None\<close> in the same way.
\<close>

type_synonym 'a slice = "'a list option"

definition len :: "'a slice \<Rightarrow> nat" where
  "len s = (case s of None \<Rightarrow> 0 | Some xs \<Rightarrow> length xs)"

definition elems :: "'a slice \<Rightarrow> 'a list" where
  \<comment> \<open>the elements a \<open>for ... range\<close> loop visits; none for the nil slice\<close>
  "elems s = (case s of None \<Rightarrow> [] | Some xs \<Rightarrow> xs)"

datatype error =
    errors_New string          \<comment> \<open>an error built by the client itself with \<open>errors.New\<close>\<close>
  | transport_error string     \<comment> \<open>request construction, connection, timeout or body-read failure\<close>
  | json_error string          \<comment> \<open>\<open>json.Unmarshal\<close> failure\<close>
  | runtime_panic string       \<comment> \<open>a nil dereference the Go runtime would stop at\<close>

record JSONInfoData =
  wurfl_api_version :: string
  wurfl_info :: string
  wm_version :: string
  important_headers :: "string slice"
  static_caps :: "string slice"
  virtual_caps :: "string slice"
  ltime :: string

record Request =
  lookup_headers :: "(string \<rightharpoonup> string) option"
  requested_caps :: "string slice"
  requested_vcaps :: "string slice"
  wurfl_id :: string
  tac_code :: string

record JSONDeviceData =
  APIVersion :: string
  Capabilities :: "(string \<rightharpoonup> string) option"
  Error :: string
  Mtime :: "64 word"
  Ltime :: string

record JSONMakeModel =
  BrandName :: string
  ModelName :: string
  MarketingName :: string

datatype JSONModelMktName = JSONModelMktName string string

record JSONDeviceOsVersions =
  OsName :: string
  OsVersion :: string

subsection \<open>The LRU cache of github.com/golang/groupcache/lru\<close>

text \<open>
  The client stores its two caches in \<open>lru.Cache\<close> values of the groupcache library.
  The library keeps a doubly linked list with the most recently used entry in front and a
  map from keys to list elements; the model keeps the list, front first, and reads the map
  off it with \<^const>\<open>map_of\<close>.  \<open>MaxEntries = 0\<close> means no limit.  \<open>Add\<close> evicts
  with the test \<open>MaxEntries != 0 && Len() > MaxEntries\<close>, written out below as it is.
\<close>

record ('k, 'v) lru_Cache =
  MaxEntries :: int
  ll :: "('k \<times> 'v) list"

definition lru_New :: "int \<Rightarrow> ('k, 'v) lru_Cache" where
  "lru_New maxEntries = \<lparr>MaxEntries = maxEntries, ll = []\<rparr>"

definition lru_Len :: "('k, 'v) lru_Cache \<Rightarrow> nat" where
  "lru_Len c = length (ll c)"

definition lru_Clear :: "('k, 'v) lru_Cache \<Rightarrow> ('k, 'v) lru_Cache" where
  "lru_Clear c = c\<lparr>ll := []\<rparr>"

definition lru_RemoveOldest :: "('k, 'v) lru_Cache \<Rightarrow> ('k, 'v) lru_Cache" where
  "lru_RemoveOldest c = c\<lparr>ll := butlast (ll c)\<rparr>"

definition lru_Get :: "'k \<Rightarrow> ('k, 'v) lru_Cache \<Rightarrow> 'v option \<times> ('k, 'v) lru_Cache" where
  \<comment> \<open>a hit moves the entry to the front\<close>
  "lru_Get key c =
     (case map_of (ll c) key of
        None \<Rightarrow> (None, c)
      | Some v \<Rightarrow> (Some v, c\<lparr>ll := (key, v) # remove1 (key, v) (ll c)\<rparr>))"

definition lru_Add :: "'k \<Rightarrow> 'v \<Rightarrow> ('k, 'v) lru_Cache \<Rightarrow> ('k, 'v) lru_Cache" where
  "lru_Add key val c =
     (case map_of (ll c) key of
        Some old \<Rightarrow> c\<lparr>ll := (key, val) # remove1 (key, old) (ll c)\<rparr>
      | None \<Rightarrow>
          (let c' = c\<lparr>ll := (key, val) # ll c\<rparr>
           in if MaxEntries c' \<noteq> 0 \<and> int (lru_Len c') > MaxEntries c'
              then lru_RemoveOldest c' else c'))"

subsection \<open>The client\<close>

text \<open>
  The fields of \<open>WmClient\<close> that the operations below read or write.  The mutexes are
  left out: the embedding runs one operation at a time.  The \<open>http.Client\<close> is always
  the one \<open>createHTTPClient\<close> makes, with a plain \<open>http.Transport\<close>; what it does
  is written out with the network below, its timeouts are among the errors the network
  can answer with, and the embedding describes a client between \<open>Create\<close> and
  \<open>DestroyConnection\<close>.
\<close>

record WmClient =
  scheme :: string
  host :: string
  port :: string
  baseURI :: string
  StaticCaps :: "string slice"
  VirtualCaps :: "string slice"
  requestedStaticCaps :: "string slice"
  requestedVirtualCaps :: "string slice"
  ImportantHeaders :: "string slice"
  deviceCache :: "(string, JSONDeviceData) lru_Cache option"
  userAgentCache :: "(string, JSONDeviceData) lru_Cache option"
  mkModels :: "JSONMakeModel slice"
  deviceMakes :: "string slice"
  deviceMakesMap :: "(string \<rightharpoonup> JSONModelMktName list) option"
  deviceOses :: "string slice"
  deviceOsVerMap :: "(string \<rightharpoonup> string list) option"
  clientLtime :: string

definition userAgentHeader :: string where
  "userAgentHeader = ''User-Agent''"

definition deviceDefaultCacheSize :: int where
  "deviceDefaultCacheSize = 20000"

section \<open>Capability registry\<close>

text \<open>
  \<open>sort.Search n f\<close>: binary search for the least index in \<open>[0, n]\<close> at which
  \<open>f\<close> holds, \<open>f\<close> being read only at indices below \<open>n\<close>.
\<close>

function sort_Search :: "nat \<Rightarrow> nat \<Rightarrow> (nat \<Rightarrow> bool) \<Rightarrow> nat" where
  "sort_Search i j f =
     (if i < j
      then (let h = (i + j) div 2
            in if \<not> f h then sort_Search (h + 1) j f else sort_Search i h f)
      else i)"
  by pat_completeness auto
termination
  by (relation "measure (\<lambda>(i, j, f). j - i)") auto

declare sort_Search.simps [simp del]

definition sort_SearchStrings :: "string list \<Rightarrow> string \<Rightarrow> nat" where
  "sort_SearchStrings a x = sort_Search 0 (length a) (\<lambda>i. a ! i \<ge> x)"

definition sliceHasValue :: "string slice \<Rightarrow> string \<Rightarrow> bool" where
  "sliceHasValue slist val =
     (case slist of
        None \<Rightarrow> False
      | Some xs \<Rightarrow>
          (let index = sort_SearchStrings xs val
           in index < length xs \<and> val = xs ! index))"

definition HasStaticCapability :: "WmClient \<Rightarrow> string \<Rightarrow> bool" where
  "HasStaticCapability c CapName = sliceHasValue (StaticCaps c) CapName"

definition HasVirtualCapability :: "WmClient \<Rightarrow> string \<Rightarrow> bool" where
  "HasVirtualCapability c CapName = sliceHasValue (VirtualCaps c) CapName"

section \<open>Caches and invalidation\<close>

definition SetCacheSize :: "int \<Rightarrow> WmClient \<Rightarrow> WmClient" where
  "SetCacheSize uaMaxEntries c =
     c\<lparr>userAgentCache := Some (lru_New uaMaxEntries),
       deviceCache := Some (lru_New deviceDefaultCacheSize)\<rparr>"

definition clear_if_used :: "('k, 'v) lru_Cache option \<Rightarrow> ('k, 'v) lru_Cache option" where
  \<comment> \<open>\<open>if cache != nil && cache.Len() > 0 { cache.Clear() }\<close>\<close>
  "clear_if_used cache =
     (case cache of
        None \<Rightarrow> None
      | Some u \<Rightarrow> if lru_Len u > 0 then Some (lru_Clear u) else Some u)"

definition clearCache :: "WmClient \<Rightarrow> WmClient" where
  "clearCache c =
     c\<lparr>userAgentCache := clear_if_used (userAgentCache c),
       deviceCache := clear_if_used (deviceCache c),
       mkModels := None,
       deviceMakes := None,
       deviceMakesMap := None,
       deviceOses := None,
       deviceOsVerMap := None\<rparr>"

definition GetActualCacheSizes :: "WmClient \<Rightarrow> nat \<times> nat" where
  \<comment> \<open>device-id cache first, header cache second; a nil cache counts 0\<close>
  "GetActualCacheSizes c =
     ((case deviceCache c of None \<Rightarrow> 0 | Some d \<Rightarrow> lru_Len d),
      (case userAgentCache c of None \<Rightarrow> 0 | Some u \<Rightarrow> lru_Len u))"

definition clearCachesIfNeeded :: "string \<Rightarrow> WmClient \<Rightarrow> WmClient" where
  "clearCachesIfNeeded lt c =
     (if length lt > 0 \<and> clientLtime c \<noteq> lt
      then clearCache (c\<lparr>clientLtime := lt\<rparr>)
      else c)"

section \<open>Requested capabilities\<close>

definition SetRequestedStaticCapabilities :: "string slice \<Rightarrow> WmClient \<Rightarrow> WmClient" where
  "SetRequestedStaticCapabilities CapsList c =
     (case CapsList of
        None \<Rightarrow> clearCache (c\<lparr>requestedStaticCaps := None\<rparr>)
      | Some names \<Rightarrow>
          (let capNames = filter (HasStaticCapability c) names
           in if length capNames > 0
              then clearCache (c\<lparr>requestedStaticCaps := Some capNames\<rparr>)
              else c))"

definition SetRequestedVirtualCapabilities :: "string slice \<Rightarrow> WmClient \<Rightarrow> WmClient" where
  "SetRequestedVirtualCapabilities CapsList c =
     (case CapsList of
        None \<Rightarrow> clearCache (c\<lparr>requestedVirtualCaps := None\<rparr>)
      | Some names \<Rightarrow>
          (let vcapNames = filter (HasVirtualCapability c) names
           in if length vcapNames > 0
              then clearCache (c\<lparr>requestedVirtualCaps := Some vcapNames\<rparr>)
              else c))"

definition SetRequestedCapabilities :: "string slice \<Rightarrow> WmClient \<Rightarrow> WmClient" where
  "SetRequestedCapabilities CapsList c =
     (case CapsList of
        None \<Rightarrow> clearCache (c\<lparr>requestedVirtualCaps := None, requestedStaticCaps := None\<rparr>)
      | Some names \<Rightarrow>
          (let capNames = filter (HasStaticCapability c) names;
               vcapNames = filter (\<lambda>name. \<not> HasStaticCapability c name
                                          \<and> HasVirtualCapability c name) names
           in clearCache (c\<lparr>requestedStaticCaps := Some capNames,
                             requestedVirtualCaps := Some vcapNames\<rparr>)))"

section \<open>Cache keys: MD5 (RFC 1321) and lowercase hexadecimal\<close>

text \<open>
  \<open>getUserAgentCacheKey\<close> hashes with \<open>crypto/md5\<close> and prints the digest with
  \<open>encoding/hex\<close>.  Both are fixed functions of the standard library; they are written
  out here so that cache keys can be computed.
\<close>

definition md5_K :: "32 word list" where
  "md5_K =
    [0xd76aa478, 0xe8c7b756, 0x242070db, 0xc1bdceee, 0xf57c0faf, 0x4787c62a, 0xa8304613, 0xfd469501,
     0x698098d8, 0x8b44f7af, 0xffff5bb1, 0x895cd7be, 0x6b901122, 0xfd987193, 0xa679438e, 0x49b40821,
     0xf61e2562, 0xc040b340, 0x265e5a51, 0xe9b6c7aa, 0xd62f105d, 0x02441453, 0xd8a1e681, 0xe7d3fbc8,
     0x21e1cde6, 0xc33707d6, 0xf4d50d87, 0x455a14ed, 0xa9e3e905, 0xfcefa3f8, 0x676f02d9, 0x8d2a4c8a,
     0xfffa3942, 0x8771f681, 0x6d9d6122, 0xfde5380c, 0xa4beea44, 0x4bdecfa9, 0xf6bb4b60, 0xbebfbc70,
     0x289b7ec6, 0xeaa127fa, 0xd4ef3085, 0x04881d05, 0xd9d4d039, 0xe6db99e5, 0x1fa27cf8, 0xc4ac5665,
     0xf4292244, 0x432aff97, 0xab9423a7, 0xfc93a039, 0x655b59c3, 0x8f0ccc92, 0xffeff47d, 0x85845dd1,
     0x6fa87e4f, 0xfe2ce6e0, 0xa3014314, 0x4e0811a1, 0xf7537e82, 0xbd3af235, 0x2ad7d2bb, 0xeb86d391]"

definition md5_s :: "nat list" where
  "md5_s =
    [7, 12, 17, 22, 7, 12, 17, 22, 7, 12, 17, 22, 7, 12, 17, 22,
     5, 9, 14, 20, 5, 9, 14, 20, 5, 9, 14, 20, 5, 9, 14, 20,
     4, 11, 16, 23, 4, 11, 16, 23, 4, 11, 16, 23, 4, 11, 16, 23,
     6, 10, 15, 21, 6, 10, 15, 21, 6, 10, 15, 21, 6, 10, 15, 21]"

definition md5_pad :: "8 word list \<Rightarrow> 8 word list" where
  \<comment> \<open>one 0x80 byte, zeros up to 56 modulo 64, then the bit length in 8 bytes, low byte first\<close>
  "md5_pad m =
     (let n = length m
      in m @ [0x80] @ replicate ((119 - n mod 64) mod 64) 0 @
         map (\<lambda>i. ucast (drop_bit (8 * i) (8 * (word_of_nat n :: 64 word)))) [0..<8])"

fun le_words :: "8 word list \<Rightarrow> 32 word list" where
  "le_words (b0 # b1 # b2 # b3 # bs) =
     (ucast b0 OR push_bit 8 (ucast b1) OR push_bit 16 (ucast b2) OR push_bit 24 (ucast b3))
       # le_words bs"
| "le_words _ = []"

type_synonym md5_state = "32 word \<times> 32 word \<times> 32 word \<times> 32 word"

definition md5_step :: "32 word list \<Rightarrow> nat \<Rightarrow> md5_state \<Rightarrow> md5_state" where
  "md5_step M i st =
     (case st of (a, b, c, d) \<Rightarrow>
        (let (f, g) =
           (if i < 16 then ((b AND c) OR (NOT b AND d), i)
            else if i < 32 then ((d AND b) OR (NOT d AND c), (5 * i + 1) mod 16)
            else if i < 48 then (b XOR c XOR d, (3 * i + 5) mod 16)
            else (c XOR (b OR NOT d), (7 * i) mod 16));
           f' = f + a + md5_K ! i + M ! g
         in (d, b + word_rotl (md5_s ! i) f', b, c)))"

definition md5_block :: "md5_state \<Rightarrow> 8 word list \<Rightarrow> md5_state" where
  "md5_block st blk =
     (case st of (a0, b0, c0, d0) \<Rightarrow>
        (case fold (md5_step (le_words blk)) [0..<64] st of (a, b, c, d) \<Rightarrow>
           (a0 + a, b0 + b, c0 + c, d0 + d)))"

function md5_blocks :: "md5_state \<Rightarrow> 8 word list \<Rightarrow> md5_state" where
  "md5_blocks st bs =
     (if length bs < 64 then st
      else md5_blocks (md5_block st (take 64 bs)) (drop 64 bs))"
  by pat_completeness auto
termination
  by (relation "measure (\<lambda>(st, bs). length bs)") auto

declare md5_blocks.simps [simp del]

definition le_bytes :: "32 word \<Rightarrow> 8 word list" where
  "le_bytes w = [ucast w, ucast (drop_bit 8 w), ucast (drop_bit 16 w), ucast (drop_bit 24 w)]"

definition md5_Sum :: "string \<Rightarrow> 8 word list" where
  "md5_Sum s =
     (case md5_blocks (0x67452301, 0xefcdab89, 0x98badcfe, 0x10325476)
             (md5_pad (map of_char s)) of
        (a, b, c, d) \<Rightarrow> le_bytes a @ le_bytes b @ le_bytes c @ le_bytes d)"

definition hex_digit :: "nat \<Rightarrow> char" where
  "hex_digit n = ''0123456789abcdef'' ! n"

definition hex_EncodeToString :: "8 word list \<Rightarrow> string" where
  "hex_EncodeToString bs =
     concat (map (\<lambda>b. [hex_digit (unat b div 16), hex_digit (unat b mod 16)]) bs)"

definition map_get :: "(string \<rightharpoonup> string) \<Rightarrow> string \<Rightarrow> string" where
  \<comment> \<open>indexing a Go \<open>map[string]string\<close>: the empty string for a missing key\<close>
  "map_get m k = (case m k of None \<Rightarrow> [] | Some v \<Rightarrow> v)"

definition getUserAgentCacheKey :: "WmClient \<Rightarrow> (string \<rightharpoonup> string) \<Rightarrow> string" where
  "getUserAgentCacheKey c headers =
     hex_EncodeToString (md5_Sum
       (foldl (\<lambda>key hname. key @ map_get headers hname) [] (elems (ImportantHeaders c))))"

section \<open>The network and the standard library\<close>

definition ascii_lower :: "char \<Rightarrow> char" where
  "ascii_lower ch =
     (if CHR ''A'' \<le> ch \<and> ch \<le> CHR ''Z'' then char_of (of_char ch + (32 :: nat)) else ch)"

definition ascii_ToLower :: "string \<Rightarrow> string" where
  \<comment> \<open>what \<open>strings.ToLower\<close> does to a string of ASCII bytes\<close>
  "ascii_ToLower s = map ascii_lower s"

text \<open>
  The server, the JSON decoder and \<open>strings.ToLower\<close> are outside the client; an
  operation receives them as a record of functions, so two calls may meet different
  servers.  \<open>server_get\<close> and \<open>server_post\<close> are what a request to an \<open>http\<close> or
  \<open>https\<close> URL comes back with once it is read to the end: \<open>Inl\<close> is the error of
  whichever step failed (the rest of the URL does not parse, the host cannot be reached,
  the transfer times out, the body cannot be read), \<open>Inr\<close> the body.  A POST body is
  \<open>json.Marshal\<close> of the request object, a function of that object, so \<open>server_post\<close>
  takes the object.  The \<open>unmarshal\<close> fields are \<open>json.Unmarshal\<close> at the four target
  types.  \<open>strings_ToLower\<close> is \<open>strings.ToLower\<close>, which lowers every Unicode letter;
  the results hold for whatever function it is, and the example servers take
  \<^const>\<open>ascii_ToLower\<close>, which it is on ASCII strings.  Every operation reports the URLs
  it requested in \<open>calls\<close>.
\<close>

record net =
  server_get :: "string \<Rightarrow> error + string"
  server_post :: "string \<Rightarrow> Request \<Rightarrow> error + string"
  unmarshal_info :: "string \<Rightarrow> error + JSONInfoData"
  unmarshal_device :: "string \<Rightarrow> error + JSONDeviceData"
  unmarshal_oses :: "string \<Rightarrow> error + JSONDeviceOsVersions list"
  unmarshal_makes :: "string \<Rightarrow> error + JSONMakeModel list"
  strings_ToLower :: "string \<Rightarrow> string"

text \<open>
  \<open>http.NewRequest\<close> parses the URL and \<open>http.Client.Do\<close> hands the request to the
  client's \<open>http.Transport\<close>.  \<open>url.Parse\<close> finds the scheme with \<open>getScheme\<close>, which
  reads letters, and after the first byte digits, \<open>+\<close>, \<open>-\<close> and \<open>.\<close>, up to the first
  colon; any other byte, or no colon, means the URL has no scheme, and a colon in front is
  the error \<open>missing protocol scheme\<close>.  The scheme is then put in lower case; its
  bytes are ASCII, so \<^const>\<open>ascii_ToLower\<close> is exact there.  The transport of this client
  has no protocol registered, so \<open>Transport.roundTrip\<close> refuses every scheme but
  \<open>http\<close> and \<open>https\<close> with \<open>unsupported protocol scheme\<close>; a URL without scheme
  either fails to parse or is refused in the same way.
\<close>

definition scheme_letter :: "char \<Rightarrow> bool" where
  \<comment> \<open>\<open>case 'a' <= c && c <= 'z' || 'A' <= c && c <= 'Z'\<close>\<close>
  "scheme_letter ch \<longleftrightarrow> (CHR ''a'' \<le> ch \<and> ch \<le> CHR ''z'') \<or> (CHR ''A'' \<le> ch \<and> ch \<le> CHR ''Z'')"

definition scheme_mark :: "char \<Rightarrow> bool" where
  \<comment> \<open>\<open>case '0' <= c && c <= '9' || c == '+' || c == '-' || c == '.'\<close>\<close>
  "scheme_mark ch \<longleftrightarrow>
     (CHR ''0'' \<le> ch \<and> ch \<le> CHR ''9'') \<or> ch = CHR ''+'' \<or> ch = CHR ''-'' \<or> ch = CHR ''.''"

fun scheme_scan :: "string \<Rightarrow> string \<Rightarrow> error + string" where
  \<comment> \<open>the loop of \<open>getScheme\<close>: the bytes read so far, the bytes to come\<close>
  "scheme_scan seen [] = Inr []"
| "scheme_scan seen (ch # rest) =
     (if scheme_letter ch then scheme_scan (seen @ [ch]) rest
      else if scheme_mark ch
      then (if seen = [] then Inr [] else scheme_scan (seen @ [ch]) rest)
      else if ch = CHR '':''
      then (if seen = [] then Inl (transport_error ''missing protocol scheme'') else Inr seen)
      else Inr [])"

definition getScheme :: "string \<Rightarrow> error + string" where
  \<comment> \<open>the scheme of a raw URL; the empty string when it has none\<close>
  "getScheme rawURL = scheme_scan [] rawURL"

definition isHTTP :: "string \<Rightarrow> bool" where
  \<comment> \<open>\<open>isHTTP := scheme == "http" || scheme == "https"\<close> of \<open>Transport.roundTrip\<close>\<close>
  "isHTTP sch \<longleftrightarrow> sch = ''http'' \<or> sch = ''https''"

definition round_trip :: "string \<Rightarrow> (error + string) \<Rightarrow> error + string" where
  \<comment> \<open>a request to \<open>url\<close>: refused before it leaves unless the scheme is \<open>http\<close> or
      \<open>https\<close>, and otherwise what the server side gives\<close>
  "round_trip url answer =
     (case getScheme url of
        Inl e \<Rightarrow> Inl e
      | Inr sch \<Rightarrow>
          if isHTTP (ascii_ToLower sch) then answer
          else Inl (transport_error ''unsupported protocol scheme''))"

definition http_get :: "net \<Rightarrow> string \<Rightarrow> error + string" where
  \<comment> \<open>\<open>http.NewRequest("GET", url, nil)\<close>, \<open>httpClient.Do\<close>, \<open>ioutil.ReadAll\<close>\<close>
  "http_get env url = round_trip url (server_get env url)"

definition http_post :: "net \<Rightarrow> string \<Rightarrow> Request \<Rightarrow> error + string" where
  \<comment> \<open>\<open>http.NewRequest("POST", url, body)\<close>, \<open>httpClient.Do\<close>, \<open>ioutil.ReadAll\<close>\<close>
  "http_post env url request = round_trip url (server_post env url request)"

text \<open>What a method returns: the Go result pair, the client afterwards, the URLs requested.\<close>

record 'a result =
  ret :: "'a option"
  err :: "error option"
  cl :: WmClient
  calls :: "string list"

definition createURL :: "WmClient \<Rightarrow> string \<Rightarrow> string" where
  "createURL c path =
     (let url = scheme c @ ''://'' @ host c;
          url = (if length (port c) > 0 then url @ '':'' @ port c else url)
      in if length (baseURI c) > 0 then url @ ''/'' @ baseURI c @ path else url @ path)"

definition internalGet :: "net \<Rightarrow> WmClient \<Rightarrow> string \<Rightarrow> error + string" where
  "internalGet env c endpoint = http_get env (createURL c endpoint)"

definition internalLookup :: "net \<Rightarrow> WmClient \<Rightarrow> Request \<Rightarrow> string \<Rightarrow> JSONDeviceData result" where
  "internalLookup env c request path =
     (let url = createURL c path
      in case http_post env url request of
           Inl e \<Rightarrow> \<lparr>ret = None, err = Some e, cl = c, calls = [url]\<rparr>
         | Inr resbody \<Rightarrow>
             (case unmarshal_device env resbody of
                Inl umerr \<Rightarrow> \<lparr>ret = None, err = Some umerr, cl = c, calls = [url]\<rparr>
              | Inr deviceData \<Rightarrow>
                  if length (Error deviceData) > 0
                  then \<lparr>ret = Some (deviceData\<lparr>Error := []\<rparr>),
                        err = Some (errors_New (''Received error from WM server: '' @ Error deviceData)),
                        cl = c, calls = [url]\<rparr>
                  else \<lparr>ret = Some deviceData, err = None, cl = c, calls = [url]\<rparr>))"

definition checkData :: "JSONInfoData \<Rightarrow> bool" where
  "checkData data \<longleftrightarrow>
     length (wm_version data) > 0 \<and> length (wurfl_api_version data) > 0 \<and>
     length (wurfl_info data) > 0 \<and>
     (len (static_caps data) > 0 \<or> len (virtual_caps data) > 0)"

definition GetInfo :: "net \<Rightarrow> WmClient \<Rightarrow> JSONInfoData result" where
  "GetInfo env c =
     (let url = createURL c ''/v2/getinfo/json''
      in case internalGet env c ''/v2/getinfo/json'' of
           Inl berr \<Rightarrow> \<lparr>ret = None, err = Some berr, cl = c, calls = [url]\<rparr>
         | Inr body \<Rightarrow>
             (case unmarshal_info env body of
                Inl merror \<Rightarrow> \<lparr>ret = None, err = Some merror, cl = c, calls = [url]\<rparr>
              | Inr info \<Rightarrow>
                  if \<not> checkData info
                  then \<lparr>ret = None,
                        err = Some (errors_New ''server returned empty data or a wrong json format''),
                        cl = c, calls = [url]\<rparr>
                  else \<lparr>ret = Some info, err = None,
                        cl = clearCachesIfNeeded (ltime info) c, calls = [url]\<rparr>))"

section \<open>Construction\<close>

definition zero_WmClient :: WmClient where
  \<comment> \<open>\<open>&WmClient{}\<close>\<close>
  "zero_WmClient =
     \<lparr>scheme = [], host = [], port = [], baseURI = [],
      StaticCaps = None, VirtualCaps = None,
      requestedStaticCaps = None, requestedVirtualCaps = None,
      ImportantHeaders = None, deviceCache = None, userAgentCache = None,
      mkModels = None, deviceMakes = None, deviceMakesMap = None,
      deviceOses = None, deviceOsVerMap = None, clientLtime = []\<rparr>"

definition sort_Strings :: "string slice \<Rightarrow> string slice" where
  "sort_Strings s = map_option sort s"

definition Create :: "net \<Rightarrow> string \<Rightarrow> string \<Rightarrow> string \<Rightarrow> string \<Rightarrow> WmClient option \<times> error option" where
  "Create env Scheme Host Port BaseURI =
     (let client = zero_WmClient\<lparr>scheme := (if length Scheme > 0 then Scheme else ''http''),
                                 host := Host, port := Port, baseURI := BaseURI\<rparr>;
          r = GetInfo env client
      in case err r of
           Some e \<Rightarrow> (None, Some e)
         | None \<Rightarrow>
             (case ret r of
                None \<Rightarrow> (None, Some (runtime_panic ''nil pointer dereference''))
              | Some data \<Rightarrow>
                  (Some ((cl r)\<lparr>ImportantHeaders := important_headers data,
                                StaticCaps := sort_Strings (static_caps data),
                                VirtualCaps := sort_Strings (virtual_caps data)\<rparr>),
                   None)))"

section \<open>Lookups\<close>

text \<open>
  The four lookups share two blocks of code: the cache probe before the network call
  (\<open>if cache != nil { value, ok := cache.Get(key); if ok { return value, nil } }\<close>)
  and the store after it (\<open>if cache != nil { cache.Add(key, deviceData) }\<close>).
\<close>

type_synonym device_cache = "(string, JSONDeviceData) lru_Cache"

definition probe :: "string \<Rightarrow> device_cache option \<Rightarrow> (JSONDeviceData \<times> device_cache) option" where
  "probe key cache =
     (case cache of
        None \<Rightarrow> None
      | Some u \<Rightarrow> (case lru_Get key u of (None, u') \<Rightarrow> None | (Some v, u') \<Rightarrow> Some (v, u')))"

definition store :: "string \<Rightarrow> JSONDeviceData \<Rightarrow> device_cache option \<Rightarrow> device_cache option" where
  "store key deviceData cache =
     (case cache of None \<Rightarrow> None | Some u \<Rightarrow> Some (lru_Add key deviceData u))"

definition copy_headers :: "(string \<Rightarrow> string) \<Rightarrow> string list \<Rightarrow> (string \<rightharpoonup> string)" where
  \<comment> \<open>the \<open>copy headers\<close> loop: an important header is copied, under its own name, when
      the request has a non-empty value for it\<close>
  "copy_headers hget names =
     fold (\<lambda>name m. (let h = hget name in if h \<noteq> [] then m(name \<mapsto> h) else m)) names Map.empty"

text \<open>
  \<open>LookupRequest\<close> reads the request through \<open>request.Header.Get\<close> only, so the request
  is that function: the value of a header, the empty string when it is absent.
\<close>

definition LookupRequest :: "net \<Rightarrow> WmClient \<Rightarrow> (string \<Rightarrow> string) \<Rightarrow> JSONDeviceData result" where
  "LookupRequest env c request_Header_Get =
     (let headers = copy_headers request_Header_Get (elems (ImportantHeaders c))
      in case probe (getUserAgentCacheKey c headers) (userAgentCache c) of
           Some (jdd, u) \<Rightarrow> \<lparr>ret = Some jdd, err = None, cl = c\<lparr>userAgentCache := Some u\<rparr>, calls = []\<rparr>
         | None \<Rightarrow>
             (let jrequest = \<lparr>lookup_headers = Some headers,
                              requested_caps = requestedStaticCaps c,
                              requested_vcaps = requestedVirtualCaps c,
                              wurfl_id = [], tac_code = []\<rparr>;
                  r = internalLookup env c jrequest ''/v2/lookuprequest/json''
              in case err r of
                   Some e \<Rightarrow> r
                 | None \<Rightarrow>
                     (case ret r of
                        None \<Rightarrow> r\<lparr>err := Some (runtime_panic ''nil pointer dereference'')\<rparr>
                      | Some deviceData \<Rightarrow>
                          (let c1 = clearCachesIfNeeded (Ltime deviceData) c
                           in r\<lparr>cl := c1\<lparr>userAgentCache :=
                                   store (getUserAgentCacheKey c1 headers) deviceData (userAgentCache c1)\<rparr>\<rparr>))))"

definition lowerKeyMap :: "net \<Rightarrow> (string \<times> string) list \<Rightarrow> (string \<rightharpoonup> string)" where
  \<comment> \<open>\<open>for k, v := range headers { lowerKeyMap[strings.ToLower(k)] = v }\<close>\<close>
  "lowerKeyMap env headers =
     fold (\<lambda>(k, v) m. m(strings_ToLower env k \<mapsto> v)) headers Map.empty"

text \<open>
  \<open>LookupHeaders\<close> takes a Go map.  A Go map has distinct keys and is visited by
  \<open>range\<close> in an order the runtime chooses; the argument is the list of its entries in
  the order this call visits them.
\<close>

definition LookupHeaders :: "net \<Rightarrow> WmClient \<Rightarrow> (string \<times> string) list \<Rightarrow> JSONDeviceData result" where
  "LookupHeaders env c headers =
     (let lkm = lowerKeyMap env headers;
          jheaders = copy_headers (\<lambda>name. map_get lkm (strings_ToLower env name))
                       (elems (ImportantHeaders c))
      in case probe (getUserAgentCacheKey c jheaders) (userAgentCache c) of
           Some (jdd, u) \<Rightarrow> \<lparr>ret = Some jdd, err = None, cl = c\<lparr>userAgentCache := Some u\<rparr>, calls = []\<rparr>
         | None \<Rightarrow>
             (let jrequest = \<lparr>lookup_headers = Some jheaders,
                              requested_caps = requestedStaticCaps c,
                              requested_vcaps = requestedVirtualCaps c,
                              wurfl_id = [], tac_code = []\<rparr>;
                  r = internalLookup env c jrequest ''/v2/lookuprequest/json''
              in case err r of
                   Some e \<Rightarrow> r
                 | None \<Rightarrow>
                     (case ret r of
                        None \<Rightarrow> r\<lparr>err := Some (runtime_panic ''nil pointer dereference'')\<rparr>
                      | Some deviceData \<Rightarrow>
                          (let c1 = clearCachesIfNeeded (Ltime deviceData) c
                           in r\<lparr>cl := c1\<lparr>userAgentCache :=
                                   store (getUserAgentCacheKey c1 jheaders) deviceData (userAgentCache c1)\<rparr>\<rparr>))))"

definition LookupUserAgent :: "net \<Rightarrow> WmClient \<Rightarrow> string \<Rightarrow> JSONDeviceData result" where
  "LookupUserAgent env c userAgent =
     (let headers = [userAgentHeader \<mapsto> userAgent]
      in case probe (getUserAgentCacheKey c headers) (userAgentCache c) of
           Some (jdd, u) \<Rightarrow> \<lparr>ret = Some jdd, err = None, cl = c\<lparr>userAgentCache := Some u\<rparr>, calls = []\<rparr>
         | None \<Rightarrow>
             (let jsonRequest = \<lparr>lookup_headers = Some [userAgentHeader \<mapsto> userAgent],
                                 requested_caps = requestedStaticCaps c,
                                 requested_vcaps = requestedVirtualCaps c,
                                 wurfl_id = [], tac_code = []\<rparr>;
                  r = internalLookup env c jsonRequest ''/v2/lookupuseragent/json''
              in case err r of
                   Some e \<Rightarrow> r
                 | None \<Rightarrow>
                     (case ret r of
                        None \<Rightarrow> r\<lparr>err := Some (runtime_panic ''nil pointer dereference'')\<rparr>
                      | Some deviceData \<Rightarrow>
                          (let c1 = clearCachesIfNeeded (Ltime deviceData) c
                           in r\<lparr>cl := c1\<lparr>userAgentCache :=
                                   store (getUserAgentCacheKey c1 headers) deviceData (userAgentCache c1)\<rparr>\<rparr>))))"

definition LookupDeviceID :: "net \<Rightarrow> WmClient \<Rightarrow> string \<Rightarrow> JSONDeviceData result" where
  "LookupDeviceID env c deviceID =
     (case probe deviceID (deviceCache c) of
        Some (jdd, d) \<Rightarrow> \<lparr>ret = Some jdd, err = None, cl = c\<lparr>deviceCache := Some d\<rparr>, calls = []\<rparr>
      | None \<Rightarrow>
          (let jsonRequest = \<lparr>lookup_headers = None,
                              requested_caps = requestedStaticCaps c,
                              requested_vcaps = requestedVirtualCaps c,
                              wurfl_id = deviceID, tac_code = []\<rparr>;
               r = internalLookup env c jsonRequest ''/v2/lookupdeviceid/json''
           in case err r of
                Some e \<Rightarrow> r
              | None \<Rightarrow>
                  (case ret r of
                     None \<Rightarrow> r\<lparr>err := Some (runtime_panic ''nil pointer dereference'')\<rparr>
                   | Some deviceData \<Rightarrow>
                       (let c1 = clearCachesIfNeeded (Ltime deviceData) c
                        in r\<lparr>cl := c1\<lparr>deviceCache := store deviceID deviceData (deviceCache c1)\<rparr>\<rparr>))))"

text \<open>The four lookups as one operation, to speak of all of them at once.\<close>

datatype lookup_op =
    ByRequest "string \<Rightarrow> string"
  | ByHeaders "(string \<times> string) list"
  | ByUserAgent string
  | ByDeviceID string

fun Lookup :: "net \<Rightarrow> WmClient \<Rightarrow> lookup_op \<Rightarrow> JSONDeviceData result" where
  "Lookup env c (ByRequest g) = LookupRequest env c g"
| "Lookup env c (ByHeaders hs) = LookupHeaders env c hs"
| "Lookup env c (ByUserAgent ua) = LookupUserAgent env c ua"
| "Lookup env c (ByDeviceID i) = LookupDeviceID env c i"

datatype cache_id = HeaderCache | DeviceCache

fun cache_of :: "cache_id \<Rightarrow> WmClient \<Rightarrow> device_cache option" where
  "cache_of HeaderCache c = userAgentCache c"
| "cache_of DeviceCache c = deviceCache c"

fun with_cache :: "cache_id \<Rightarrow> device_cache option \<Rightarrow> WmClient \<Rightarrow> WmClient" where
  "with_cache HeaderCache u c = c\<lparr>userAgentCache := u\<rparr>"
| "with_cache DeviceCache u c = c\<lparr>deviceCache := u\<rparr>"

fun other_cache :: "cache_id \<Rightarrow> cache_id" where
  "other_cache HeaderCache = DeviceCache"
| "other_cache DeviceCache = HeaderCache"

fun op_cache :: "lookup_op \<Rightarrow> cache_id" where
  "op_cache (ByDeviceID i) = DeviceCache"
| "op_cache _ = HeaderCache"

fun op_headers :: "net \<Rightarrow> WmClient \<Rightarrow> lookup_op \<Rightarrow> (string \<rightharpoonup> string) option" where
  "op_headers env c (ByRequest g) = Some (copy_headers g (elems (ImportantHeaders c)))"
| "op_headers env c (ByHeaders hs) =
     Some (copy_headers (\<lambda>name. map_get (lowerKeyMap env hs) (strings_ToLower env name))
             (elems (ImportantHeaders c)))"
| "op_headers env c (ByUserAgent ua) = Some [userAgentHeader \<mapsto> ua]"
| "op_headers env c (ByDeviceID i) = None"

fun op_key :: "net \<Rightarrow> WmClient \<Rightarrow> lookup_op \<Rightarrow> string" where
  "op_key env c (ByDeviceID i) = i"
| "op_key env c lop =
     getUserAgentCacheKey c (case op_headers env c lop of None \<Rightarrow> Map.empty | Some h \<Rightarrow> h)"

fun op_path :: "lookup_op \<Rightarrow> string" where
  "op_path (ByRequest g) = ''/v2/lookuprequest/json''"
| "op_path (ByHeaders hs) = ''/v2/lookuprequest/json''"
| "op_path (ByUserAgent ua) = ''/v2/lookupuseragent/json''"
| "op_path (ByDeviceID i) = ''/v2/lookupdeviceid/json''"

definition op_request :: "net \<Rightarrow> WmClient \<Rightarrow> lookup_op \<Rightarrow> Request" where
  "op_request env c lop =
     \<lparr>lookup_headers = op_headers env c lop,
      requested_caps = requestedStaticCaps c,
      requested_vcaps = requestedVirtualCaps c,
      wurfl_id = (case lop of ByDeviceID i \<Rightarrow> i | _ \<Rightarrow> []),
      tac_code = []\<rparr>"

definition cache_size :: "cache_id \<Rightarrow> WmClient \<Rightarrow> nat" where
  \<comment> \<open>what \<open>GetActualCacheSizes\<close> reports for one cache\<close>
  "cache_size i c = (case cache_of i c of None \<Rightarrow> 0 | Some u \<Rightarrow> lru_Len u)"

section \<open>Auxiliary tables\<close>

definition add_os :: "JSONDeviceOsVersions \<Rightarrow> (string \<rightharpoonup> string list) \<times> string list
                        \<Rightarrow> (string \<rightharpoonup> string list) \<times> string list" where
  \<comment> \<open>one round of the loop of \<open>loadDeviceOsesData\<close> over \<open>(ovMap, ov)\<close>\<close>
  "add_os ovModel acc =
     (case acc of (ovMap, ov) \<Rightarrow>
        (ovMap(OsName ovModel \<mapsto>
            (case ovMap (OsName ovModel) of None \<Rightarrow> [] | Some vs \<Rightarrow> vs) @ [OsVersion ovModel]),
         (if ovMap (OsName ovModel) = None then ov @ [OsName ovModel] else ov)))"

definition loadDeviceOsesData :: "net \<Rightarrow> WmClient \<Rightarrow> unit result" where
  "loadDeviceOsesData env c =
     (if deviceOses c \<noteq> None \<and> len (deviceOses c) > 0
      then \<lparr>ret = None, err = None, cl = c, calls = []\<rparr>
      else
        (let url = createURL c ''/v2/alldeviceosversions/json''
         in case internalGet env c ''/v2/alldeviceosversions/json'' of
              Inl berr \<Rightarrow> \<lparr>ret = None, err = Some berr, cl = c, calls = [url]\<rparr>
            | Inr body \<Rightarrow>
                (case unmarshal_oses env body of
                   Inl merror \<Rightarrow> \<lparr>ret = None, err = Some merror, cl = c, calls = [url]\<rparr>
                 | Inr osVersionModels \<Rightarrow>
                     (case fold add_os osVersionModels (Map.empty, []) of (ovMap, ov) \<Rightarrow>
                        \<lparr>ret = None, err = None,
                         cl = c\<lparr>deviceOsVerMap := Some ovMap, deviceOses := Some ov\<rparr>,
                         calls = [url]\<rparr>))))"

definition GetAllOSes :: "net \<Rightarrow> WmClient \<Rightarrow> string list result" where
  "GetAllOSes env c =
     (let r = loadDeviceOsesData env c
      in if err r \<noteq> None \<and> len (deviceOses (cl r)) > 0
         then \<lparr>ret = None, err = err r, cl = cl r, calls = calls r\<rparr>
         else \<lparr>ret = deviceOses (cl r), err = None, cl = cl r, calls = calls r\<rparr>)"

definition os_versions :: "WmClient \<Rightarrow> string \<Rightarrow> string list option" where
  \<comment> \<open>\<open>val, ok := c.deviceOsVerMap[osName]\<close>; a nil map has no key\<close>
  "os_versions c osName = (case deviceOsVerMap c of None \<Rightarrow> None | Some m \<Rightarrow> m osName)"

definition GetAllVersionsForOS :: "net \<Rightarrow> WmClient \<Rightarrow> string \<Rightarrow> string list result" where
  "GetAllVersionsForOS env c osName =
     (let r = loadDeviceOsesData env c
      in if err r \<noteq> None \<and> len (deviceOses (cl r)) > 0
         then \<lparr>ret = None, err = err r, cl = cl r, calls = calls r\<rparr>
         else
           (case os_versions (cl r) osName of
              Some val \<Rightarrow>
                \<lparr>ret = Some (filter (\<lambda>v. v \<noteq> []) val), err = None, cl = cl r, calls = calls r\<rparr>
            | None \<Rightarrow>
                \<lparr>ret = None,
                 err = Some (errors_New (''Error getting data from WM server: '' @ osName
                                          @ '' does not exist'')),
                 cl = cl r, calls = calls r\<rparr>))"

definition add_make :: "JSONMakeModel \<Rightarrow> (string \<rightharpoonup> JSONModelMktName list) \<times> string list
                          \<Rightarrow> (string \<rightharpoonup> JSONModelMktName list) \<times> string list" where
  "add_make mkModel acc =
     (case acc of (dmMap, dm) \<Rightarrow>
        (dmMap(BrandName mkModel \<mapsto>
            (case dmMap (BrandName mkModel) of None \<Rightarrow> [] | Some ms \<Rightarrow> ms)
              @ [JSONModelMktName (ModelName mkModel) (MarketingName mkModel)]),
         (if dmMap (BrandName mkModel) = None then dm @ [BrandName mkModel] else dm)))"

definition loadDeviceMakesData :: "net \<Rightarrow> WmClient \<Rightarrow> unit result" where
  "loadDeviceMakesData env c =
     (if deviceMakes c \<noteq> None \<and> len (deviceMakes c) > 0
      then \<lparr>ret = None, err = None, cl = c, calls = []\<rparr>
      else
        (let url = createURL c ''/v2/alldevices/json''
         in case internalGet env c ''/v2/alldevices/json'' of
              Inl berr \<Rightarrow> \<lparr>ret = None, err = Some berr, cl = c, calls = [url]\<rparr>
            | Inr body \<Rightarrow>
                (case unmarshal_makes env body of
                   Inl merror \<Rightarrow> \<lparr>ret = None, err = Some merror, cl = c, calls = [url]\<rparr>
                 | Inr mkMods \<Rightarrow>
                     (case fold add_make mkMods (Map.empty, []) of (dmMap, dm) \<Rightarrow>
                        \<lparr>ret = None, err = None,
                         cl = c\<lparr>deviceMakesMap := Some dmMap, deviceMakes := Some dm\<rparr>,
                         calls = [url]\<rparr>))))"

definition GetAllDeviceMakes :: "net \<Rightarrow> WmClient \<Rightarrow> string list result" where
  "GetAllDeviceMakes env c =
     (let r = loadDeviceMakesData env c
      in if err r \<noteq> None \<and> len (deviceMakes (cl r)) > 0
         then \<lparr>ret = None, err = err r, cl = cl r, calls = calls r\<rparr>
         else \<lparr>ret = deviceMakes (cl r), err = None, cl = cl r, calls = calls r\<rparr>)"

definition GetAllDevicesForMake :: "net \<Rightarrow> WmClient \<Rightarrow> string \<Rightarrow> JSONModelMktName list result" where
  "GetAllDevicesForMake env c brandName =
     (let r = loadDeviceMakesData env c
      in if err r \<noteq> None \<and> len (deviceMakes (cl r)) > 0
         then \<lparr>ret = None, err = err r, cl = cl r, calls = calls r\<rparr>
         else
           (case (case deviceMakesMap (cl r) of None \<Rightarrow> None | Some m \<Rightarrow> m brandName) of
              Some val \<Rightarrow> \<lparr>ret = Some val, err = None, cl = cl r, calls = calls r\<rparr>
            | None \<Rightarrow>
                \<lparr>ret = None,
                 err = Some (errors_New (''Error getting data from WM server: '' @ brandName
                                          @ '' does not exist'')),
                 cl = cl r, calls = calls r\<rparr>))"

section \<open>Notions the results are stated with\<close>

text \<open>
  Names for parts of the code above and for what the results speak of: the client
  \<open>Create\<close> has built before the handshake, the URLs refused for their scheme, the
  shape the four lookups share, runs of lookups, the clients a caller can get hold of, and
  the important part of a header map.
\<close>

definition new_client :: "string \<Rightarrow> string \<Rightarrow> string \<Rightarrow> string \<Rightarrow> WmClient" where
  \<comment> \<open>the client \<open>Create\<close> has built when it calls \<open>GetInfo\<close>\<close>
  "new_client Scheme Host Port BaseURI =
     zero_WmClient\<lparr>scheme := (if length Scheme > 0 then Scheme else ''http''),
                   host := Host, port := Port, baseURI := BaseURI\<rparr>"



definition cached_lookup :: "net \<Rightarrow> WmClient \<Rightarrow> cache_id \<Rightarrow> string \<Rightarrow> Request \<Rightarrow> string
                               \<Rightarrow> JSONDeviceData result" where
  \<comment> \<open>the common shape of the four lookups: which cache, which key, which request, which path\<close>
  "cached_lookup env c i key request path =
     (case probe key (cache_of i c) of
        Some (jdd, u) \<Rightarrow> \<lparr>ret = Some jdd, err = None, cl = with_cache i (Some u) c, calls = []\<rparr>
      | None \<Rightarrow>
          (let r = internalLookup env c request path
           in case err r of
                Some e \<Rightarrow> r
              | None \<Rightarrow>
                  (case ret r of
                     None \<Rightarrow> r\<lparr>err := Some (runtime_panic ''nil pointer dereference'')\<rparr>
                   | Some deviceData \<Rightarrow>
                       (let c1 = clearCachesIfNeeded (Ltime deviceData) c
                        in r\<lparr>cl := with_cache i (store key deviceData (cache_of i c1)) c1\<rparr>))))"

fun Lookups :: "(net \<times> lookup_op) list \<Rightarrow> WmClient \<Rightarrow> JSONDeviceData result list" where
  \<comment> \<open>lookups one after the other, each on the client the one before left, each with its own network\<close>
  "Lookups [] c = []"
| "Lookups ((env, lop) # rest) c = Lookup env c lop # Lookups rest (cl (Lookup env c lop))"

definition same_entry :: "WmClient \<Rightarrow> net \<times> lookup_op \<Rightarrow> net \<times> lookup_op \<Rightarrow> bool" where
  \<comment> \<open>two lookups, each with its network, address the same cache with the same key\<close>
  "same_entry c a b \<longleftrightarrow>
     op_cache (snd a) = op_cache (snd b) \<and> op_key (fst a) c (snd a) = op_key (fst b) c (snd b)"

inductive reachable :: "WmClient \<Rightarrow> bool" where
  \<comment> \<open>the clients a caller can hold: made by \<open>Create\<close>, then changed only through the
      public operations and the exported fields, against any networks\<close>
  created: "Create env Scheme Host Port BaseURI = (Some c, None) \<Longrightarrow> reachable c"
| looked_up: "reachable c \<Longrightarrow> reachable (cl (Lookup env c lop))"
| cache_sized: "reachable c \<Longrightarrow> reachable (SetCacheSize uaMaxEntries c)"
| requested_static: "reachable c \<Longrightarrow> reachable (SetRequestedStaticCapabilities CapsList c)"
| requested_virtual: "reachable c \<Longrightarrow> reachable (SetRequestedVirtualCapabilities CapsList c)"
| requested: "reachable c \<Longrightarrow> reachable (SetRequestedCapabilities CapsList c)"
| got_info: "reachable c \<Longrightarrow> reachable (cl (GetInfo env c))"
| got_oses: "reachable c \<Longrightarrow> reachable (cl (GetAllOSes env c))"
| got_versions: "reachable c \<Longrightarrow> reachable (cl (GetAllVersionsForOS env c osName))"
| got_makes: "reachable c \<Longrightarrow> reachable (cl (GetAllDeviceMakes env c))"
| got_devices: "reachable c \<Longrightarrow> reachable (cl (GetAllDevicesForMake env c brandName))"
| exported: "reachable c \<Longrightarrow>
             reachable (c\<lparr>StaticCaps := s, VirtualCaps := v, ImportantHeaders := h\<rparr>)"

definition error_free :: "device_cache option \<Rightarrow> bool" where
  \<comment> \<open>no cached object carries an error message\<close>
  "error_free cache = (case cache of None \<Rightarrow> True | Some u \<Rightarrow> list_all (\<lambda>e. Error (snd e) = []) (ll u))"

definition important :: "net \<Rightarrow> WmClient \<Rightarrow> string \<Rightarrow> bool" where
  \<comment> \<open>a header name that is, up to case, one of the client's important headers\<close>
  "important env c k \<longleftrightarrow>
     strings_ToLower env k \<in> strings_ToLower env ` set (elems (ImportantHeaders c))"

definition important_part :: "net \<Rightarrow> WmClient \<Rightarrow> (string \<times> string) list
                                \<Rightarrow> (string \<times> string) list" where
  \<comment> \<open>the important entries of a header map, their names in lower case\<close>
  "important_part env c hs =
     map (\<lambda>(k, v). (strings_ToLower env k, v)) (filter (\<lambda>(k, v). important env c k) hs)"

section \<open>Example values\<close>

text \<open>Concrete clients, responses and servers at which the results below are instantiated.\<close>

definition dev1 :: JSONDeviceData where
  "dev1 = \<lparr>APIVersion = ''2.1.3'',
           Capabilities = Some [''wurfl_id'' \<mapsto> ''nokia_generic_series40''],
           Error = [], Mtime = 1500000000, Ltime = ''t1''\<rparr>"

definition warm_client :: WmClient where
  \<comment> \<open>a client in use: one entry in each cache, both tables loaded\<close>
  "warm_client =
     \<lparr>scheme = ''http'', host = ''localhost'', port = ''8080'', baseURI = [],
      StaticCaps = Some [''brand_name'', ''model_name''], VirtualCaps = Some [''is_ios''],
      requestedStaticCaps = Some [''brand_name''], requestedVirtualCaps = None,
      ImportantHeaders = Some [''User-Agent''],
      deviceCache = Some \<lparr>MaxEntries = 20000, ll = [(''nokia_generic_series40'', dev1)]\<rparr>,
      userAgentCache =
        Some \<lparr>MaxEntries = 1000, ll = [(''0cc175b9c0f1b6a831c399e269772661'', dev1)]\<rparr>,
      mkModels = None, deviceMakes = Some [''Nokia''],
      deviceMakesMap = Some [''Nokia'' \<mapsto> [JSONModelMktName ''3310'' []]],
      deviceOses = Some [''Android''], deviceOsVerMap = Some [''Android'' \<mapsto> [''7.0'']],
      clientLtime = ''t1''\<rparr>"

definition raw_oses :: "JSONDeviceOsVersions list" where
  "raw_oses = [\<lparr>OsName = ''Android'', OsVersion = ''7.0''\<rparr>,
               \<lparr>OsName = ''Android'', OsVersion = []\<rparr>,
               \<lparr>OsName = ''iOS'', OsVersion = ''10.2''\<rparr>]"

definition down_net :: net where
  \<comment> \<open>no server can be reached\<close>
  "down_net = \<lparr>server_get = (\<lambda>url. Inl (transport_error ''connection refused'')),
               server_post = (\<lambda>url req. Inl (transport_error ''connection refused'')),
               unmarshal_info = (\<lambda>b. Inl (json_error ''unexpected end of JSON input'')),
               unmarshal_device = (\<lambda>b. Inl (json_error ''unexpected end of JSON input'')),
               unmarshal_oses = (\<lambda>b. Inl (json_error ''unexpected end of JSON input'')),
               unmarshal_makes = (\<lambda>b. Inl (json_error ''unexpected end of JSON input'')),
               strings_ToLower = ascii_ToLower\<rparr>"

definition os_net :: net where
  \<comment> \<open>a server at \<open>http://localhost:8080\<close> that serves the OS listing and nothing else\<close>
  "os_net =
     down_net\<lparr>server_get := (\<lambda>url. if url = ''http://localhost:8080/v2/alldeviceosversions/json''
                                     then Inr ''os-listing''
                                     else Inl (transport_error ''connection refused'')),
              unmarshal_oses := (\<lambda>b. if b = ''os-listing'' then Inr raw_oses
                                        else Inl (json_error ''invalid character''))\<rparr>"

definition info1 :: JSONInfoData where
  "info1 = \<lparr>wurfl_api_version = ''1.11.0.0'', wurfl_info = ''wurfl.zip'', wm_version = ''2.1.0'',
            important_headers = Some [''User-Agent''],
            static_caps = Some [''model_name'', ''brand_name''],
            virtual_caps = Some [''is_ios''], ltime = ''t1''\<rparr>"

definition info_net :: net where
  \<comment> \<open>a server that answers the handshake at \<open>http://localhost:8080\<close> and nothing else\<close>
  "info_net =
     down_net\<lparr>server_get := (\<lambda>url. if url = ''http://localhost:8080/v2/getinfo/json''
                                     then Inr ''info''
                                     else Inl (transport_error ''connection refused'')),
              unmarshal_info := (\<lambda>b. if b = ''info'' then Inr info1
                                        else Inl (json_error ''invalid character''))\<rparr>"


definition app_error_dev :: JSONDeviceData where
  \<comment> \<open>what the server answers for an unknown device id: metadata and an error, no capabilities\<close>
  "app_error_dev = \<lparr>APIVersion = ''2.1.3'', Capabilities = None,
                    Error = ''device is missing'', Mtime = 1500000000, Ltime = ''t1''\<rparr>"

definition app_error_net :: net where
  "app_error_net =
     down_net\<lparr>server_post := (\<lambda>url req. Inr ''device''),
              unmarshal_device := (\<lambda>b. Inr app_error_dev)\<rparr>"

definition dev2 :: JSONDeviceData where
  \<comment> \<open>a response after the server has reloaded its data: the token is \<open>t2\<close>\<close>
  "dev2 = \<lparr>APIVersion = ''2.1.3'',
           Capabilities = Some [''wurfl_id'' \<mapsto> ''generic_opera_mini_version1''],
           Error = [], Mtime = 1500000600, Ltime = ''t2''\<rparr>"

definition dev_net :: "JSONDeviceData \<Rightarrow> net" where
  \<comment> \<open>a server that answers every lookup with the given device\<close>
  "dev_net d = down_net\<lparr>server_post := (\<lambda>url req. Inr ''device''),
                         unmarshal_device := (\<lambda>b. Inr d)\<rparr>"

definition sized_client :: "int \<Rightarrow> WmClient" where
  \<comment> \<open>a client right after \<open>SetCacheSize\<close>\<close>
  "sized_client uaMaxEntries = SetCacheSize uaMaxEntries warm_client"

definition dev3 :: JSONDeviceData where
  \<comment> \<open>a response that carries no reload-time token\<close>
  "dev3 = \<lparr>APIVersion = ''2.1.3'',
           Capabilities = Some [''wurfl_id'' \<mapsto> ''generic_opera_mini_version1''],
           Error = [], Mtime = 1500000600, Ltime = []\<rparr>"

definition created_client :: WmClient where
  \<comment> \<open>the client \<open>Create\<close> returns from the handshake with \<open>info_net\<close>\<close>
  "created_client =
     zero_WmClient\<lparr>scheme := ''http'', host := ''localhost'', port := ''8080'',
                   StaticCaps := Some [''brand_name'', ''model_name''],
                   VirtualCaps := Some [''is_ios''],
                   ImportantHeaders := Some [''User-Agent''],
                   clientLtime := ''t1''\<rparr>"

definition headers_ab :: "(string \<times> string) list" where
  \<comment> \<open>a Go map with two keys that differ in case only, visited in one order\<close>
  "headers_ab = [(''User-Agent'', ''a''), (''user-agent'', ''b'')]"

definition headers_ba :: "(string \<times> string) list" where
  \<comment> \<open>the same map visited in the other order\<close>
  "headers_ba = [(''user-agent'', ''b''), (''User-Agent'', ''a'')]"

definition headers_mixed1 :: "(string \<times> string) list" where
  "headers_mixed1 = [(''User-Agent'', ''a''), (''Accept'', ''text/html'')]"

definition headers_mixed2 :: "(string \<times> string) list" where
  "headers_mixed2 = [(''accept-language'', ''en''), (''uSeR-aGeNt'', ''a'')]"

section \<open>Invalidation\<close>

lemma clearCache_sizes: "GetActualCacheSizes (clearCache c) = (0, 0)"
  by (simp add: GetActualCacheSizes_def clearCache_def clear_if_used_def lru_Len_def lru_Clear_def
      split: option.splits)

text \<open>
  C4, as amended.  For every client and every non-empty reload-time token that differs from
  the stored one, \<open>clearCachesIfNeeded\<close> stores the token, leaves both LRU caches at size
  0, sets the make/model list, the brand list and map and the OS list and map to nil, and
  leaves \<open>StaticCaps\<close> and \<open>VirtualCaps\<close> as they were.
\<close>

theorem clearCachesIfNeeded_stale:
  assumes "lt \<noteq> []" and "lt \<noteq> clientLtime c"
  shows "clientLtime (clearCachesIfNeeded lt c) = lt
       \<and> GetActualCacheSizes (clearCachesIfNeeded lt c) = (0, 0)
       \<and> mkModels (clearCachesIfNeeded lt c) = None
       \<and> deviceMakes (clearCachesIfNeeded lt c) = None
       \<and> deviceMakesMap (clearCachesIfNeeded lt c) = None
       \<and> deviceOses (clearCachesIfNeeded lt c) = None
       \<and> deviceOsVerMap (clearCachesIfNeeded lt c) = None
       \<and> StaticCaps (clearCachesIfNeeded lt c) = StaticCaps c
       \<and> VirtualCaps (clearCachesIfNeeded lt c) = VirtualCaps c"
proof -
  from assms have eq: "clearCachesIfNeeded lt c = clearCache (c\<lparr>clientLtime := lt\<rparr>)"
    by (auto simp: clearCachesIfNeeded_def)
  show ?thesis unfolding eq
    by (simp add: clearCache_sizes) (simp add: clearCache_def)
qed

theorem clearCachesIfNeeded_stale_witness:
  "''t2'' \<noteq> [] \<and> ''t2'' \<noteq> clientLtime warm_client
   \<and> clientLtime (clearCachesIfNeeded ''t2'' warm_client) = ''t2''
   \<and> GetActualCacheSizes (clearCachesIfNeeded ''t2'' warm_client) = (0, 0)
   \<and> deviceOses (clearCachesIfNeeded ''t2'' warm_client) = None
   \<and> StaticCaps (clearCachesIfNeeded ''t2'' warm_client) = Some [''brand_name'', ''model_name'']"
  using clearCachesIfNeeded_stale [of "''t2''" warm_client]
  by (simp add: warm_client_def)

text \<open>
  C4 as stated fails at the empty token: it differs from the stored token \<open>t1\<close>, and the
  guard \<open>len(ltime) > 0\<close> leaves the client, its token, its caches and its tables alone.
\<close>

theorem clearCachesIfNeeded_empty_token_counterexample:
  "[] \<noteq> clientLtime warm_client
   \<and> clearCachesIfNeeded [] warm_client = warm_client
   \<and> clientLtime (clearCachesIfNeeded [] warm_client) = ''t1''
   \<and> GetActualCacheSizes (clearCachesIfNeeded [] warm_client) = (1, 1)
   \<and> deviceOses (clearCachesIfNeeded [] warm_client) = Some [''Android'']"
  by (simp add: clearCachesIfNeeded_def warm_client_def GetActualCacheSizes_def lru_Len_def)

section \<open>Requested capabilities\<close>

text \<open>
  The two single-list setters: a nil argument and a non-empty filtered list clear both
  caches; a list whose every name is unknown changes nothing.
\<close>

lemma SetRequestedStaticCapabilities_nil:
  "requestedStaticCaps (SetRequestedStaticCapabilities None c) = None
   \<and> GetActualCacheSizes (SetRequestedStaticCapabilities None c) = (0, 0)"
  by (simp add: SetRequestedStaticCapabilities_def clearCache_sizes) (simp add: clearCache_def)

lemma SetRequestedStaticCapabilities_commit:
  assumes "filter (HasStaticCapability c) names \<noteq> []"
  shows "requestedStaticCaps (SetRequestedStaticCapabilities (Some names) c)
           = Some (filter (HasStaticCapability c) names)
       \<and> GetActualCacheSizes (SetRequestedStaticCapabilities (Some names) c) = (0, 0)"
  using assms
  by (simp add: SetRequestedStaticCapabilities_def clearCache_sizes) (simp add: clearCache_def)

lemma SetRequestedStaticCapabilities_all_unknown:
  "filter (HasStaticCapability c) names = [] \<Longrightarrow> SetRequestedStaticCapabilities (Some names) c = c"
  by (simp add: SetRequestedStaticCapabilities_def)

lemma SetRequestedVirtualCapabilities_nil:
  "requestedVirtualCaps (SetRequestedVirtualCapabilities None c) = None
   \<and> GetActualCacheSizes (SetRequestedVirtualCapabilities None c) = (0, 0)"
  by (simp add: SetRequestedVirtualCapabilities_def clearCache_sizes) (simp add: clearCache_def)

lemma SetRequestedVirtualCapabilities_commit:
  assumes "filter (HasVirtualCapability c) names \<noteq> []"
  shows "requestedVirtualCaps (SetRequestedVirtualCapabilities (Some names) c)
           = Some (filter (HasVirtualCapability c) names)
       \<and> GetActualCacheSizes (SetRequestedVirtualCapabilities (Some names) c) = (0, 0)"
  using assms
  by (simp add: SetRequestedVirtualCapabilities_def clearCache_sizes) (simp add: clearCache_def)

lemma SetRequestedVirtualCapabilities_all_unknown:
  "filter (HasVirtualCapability c) names = [] \<Longrightarrow> SetRequestedVirtualCapabilities (Some names) c = c"
  by (simp add: SetRequestedVirtualCapabilities_def)

text \<open>The combined setter has no such test: it commits and clears whatever the filter leaves.\<close>

lemma SetRequestedCapabilities_always_clears:
  "GetActualCacheSizes (SetRequestedCapabilities CapsList c) = (0, 0)"
  by (simp add: SetRequestedCapabilities_def clearCache_sizes Let_def split: option.splits)

lemma warm_client_knows_not:
  "HasStaticCapability warm_client ''invalid_name1'' = False"
  "HasVirtualCapability warm_client ''invalid_name1'' = False"
  by code_simp+

text \<open>
  C1, at the input where the code departs from it.  The client has committed the static list
  \<open>[brand_name]\<close> and holds one entry in each cache.  \<open>SetRequestedCapabilities\<close> is called
  with the single name \<open>invalid_name1\<close>, which the registry does not know, so the filtered
  result is empty.  The call replaces both committed lists by empty lists and clears both
  caches; \<open>SetRequestedStaticCapabilities\<close> with the same argument leaves the client as
  it was.
\<close>

theorem SetRequestedCapabilities_all_unknown_commits:
  "requestedStaticCaps warm_client = Some [''brand_name'']
   \<and> requestedVirtualCaps warm_client = None
   \<and> GetActualCacheSizes warm_client = (1, 1)
   \<and> filter (HasStaticCapability warm_client) [''invalid_name1''] = []
   \<and> filter (HasVirtualCapability warm_client) [''invalid_name1''] = []
   \<and> requestedStaticCaps (SetRequestedCapabilities (Some [''invalid_name1'']) warm_client) = Some []
   \<and> requestedVirtualCaps (SetRequestedCapabilities (Some [''invalid_name1'']) warm_client) = Some []
   \<and> GetActualCacheSizes (SetRequestedCapabilities (Some [''invalid_name1'']) warm_client) = (0, 0)
   \<and> SetRequestedStaticCapabilities (Some [''invalid_name1'']) warm_client = warm_client"
proof -
  have sizes: "GetActualCacheSizes warm_client = (1, 1)"
    by (simp add: warm_client_def GetActualCacheSizes_def lru_Len_def)
  have req: "requestedStaticCaps warm_client = Some [''brand_name'']"
            "requestedVirtualCaps warm_client = None"
    by (simp_all add: warm_client_def)
  have committed:
    "requestedStaticCaps (SetRequestedCapabilities (Some [''invalid_name1'']) warm_client) = Some []"
    "requestedVirtualCaps (SetRequestedCapabilities (Some [''invalid_name1'']) warm_client) = Some []"
    by (simp_all add: SetRequestedCapabilities_def warm_client_knows_not clearCache_def)
  have static: "SetRequestedStaticCapabilities (Some [''invalid_name1'']) warm_client = warm_client"
    by (simp add: SetRequestedStaticCapabilities_def warm_client_knows_not)
  show ?thesis
    using sizes req committed static
    by (simp add: warm_client_knows_not SetRequestedCapabilities_always_clears)
qed

section \<open>Requests\<close>

lemma getScheme_http:
  "getScheme (CHR ''h'' # CHR ''t'' # CHR ''t'' # CHR ''p'' # CHR '':'' # rest) = Inr ''http''"
  by (simp add: getScheme_def scheme_letter_def scheme_mark_def)

lemma http_get_http:
  "http_get env (CHR ''h'' # CHR ''t'' # CHR ''t'' # CHR ''p'' # CHR '':'' # rest)
     = server_get env (CHR ''h'' # CHR ''t'' # CHR ''t'' # CHR ''p'' # CHR '':'' # rest)"
  by (simp add: http_get_def round_trip_def getScheme_http isHTTP_def ascii_ToLower_def
      ascii_lower_def)

lemma http_post_http:
  "http_post env (CHR ''h'' # CHR ''t'' # CHR ''t'' # CHR ''p'' # CHR '':'' # rest) request
     = server_post env (CHR ''h'' # CHR ''t'' # CHR ''t'' # CHR ''p'' # CHR '':'' # rest) request"
  by (simp add: http_post_def round_trip_def getScheme_http isHTTP_def ascii_ToLower_def
      ascii_lower_def)

lemma created_client_url: "createURL created_client p = ''http://localhost:8080'' @ p"
  by (simp add: createURL_def created_client_def zero_WmClient_def)

lemma created_client_tables:
  "deviceOses created_client = None" "deviceMakes created_client = None"
  by (simp_all add: created_client_def zero_WmClient_def)


section \<open>Auxiliary tables\<close>

lemma fold_raw_oses:
  "fold add_os raw_oses (Map.empty, []) =
     ([''Android'' \<mapsto> [''7.0'', []], ''iOS'' \<mapsto> [''10.2'']], [''Android'', ''iOS''])"
  by (simp add: raw_oses_def add_os_def)

lemma load_oses_loaded:
  "0 < len (deviceOses c) \<Longrightarrow> loadDeviceOsesData env c = \<lparr>ret = None, err = None, cl = c, calls = []\<rparr>"
  by (auto simp: loadDeviceOsesData_def len_def split: option.splits)

lemma load_makes_loaded:
  "0 < len (deviceMakes c) \<Longrightarrow> loadDeviceMakesData env c = \<lparr>ret = None, err = None, cl = c, calls = []\<rparr>"
  by (auto simp: loadDeviceMakesData_def len_def split: option.splits)

lemma load_oses_get_fails:
  assumes "len (deviceOses c) = 0"
    and "internalGet env c ''/v2/alldeviceosversions/json'' = Inl berr"
  shows "loadDeviceOsesData env c =
           \<lparr>ret = None, err = Some berr, cl = c,
            calls = [createURL c ''/v2/alldeviceosversions/json'']\<rparr>"
  unfolding loadDeviceOsesData_def Let_def using assms by simp

lemma load_oses_decode_fails:
  assumes "len (deviceOses c) = 0"
    and "internalGet env c ''/v2/alldeviceosversions/json'' = Inr body"
    and "unmarshal_oses env body = Inl merror"
  shows "loadDeviceOsesData env c =
           \<lparr>ret = None, err = Some merror, cl = c,
            calls = [createURL c ''/v2/alldeviceosversions/json'']\<rparr>"
  unfolding loadDeviceOsesData_def Let_def using assms by simp

lemma load_oses_builds:
  assumes "len (deviceOses c) = 0"
    and "internalGet env c ''/v2/alldeviceosversions/json'' = Inr body"
    and "unmarshal_oses env body = Inr models"
  shows "loadDeviceOsesData env c =
           \<lparr>ret = None, err = None,
            cl = c\<lparr>deviceOsVerMap := Some (fst (fold add_os models (Map.empty, []))),
                   deviceOses := Some (snd (fold add_os models (Map.empty, [])))\<rparr>,
            calls = [createURL c ''/v2/alldeviceosversions/json'']\<rparr>"
  unfolding loadDeviceOsesData_def Let_def using assms by (simp add: case_prod_beta)


lemma load_makes_get_fails:
  assumes "len (deviceMakes c) = 0"
    and "internalGet env c ''/v2/alldevices/json'' = Inl berr"
  shows "loadDeviceMakesData env c =
           \<lparr>ret = None, err = Some berr, cl = c, calls = [createURL c ''/v2/alldevices/json'']\<rparr>"
  unfolding loadDeviceMakesData_def Let_def using assms by simp

lemma load_makes_decode_fails:
  assumes "len (deviceMakes c) = 0"
    and "internalGet env c ''/v2/alldevices/json'' = Inr body"
    and "unmarshal_makes env body = Inl merror"
  shows "loadDeviceMakesData env c =
           \<lparr>ret = None, err = Some merror, cl = c, calls = [createURL c ''/v2/alldevices/json'']\<rparr>"
  unfolding loadDeviceMakesData_def Let_def using assms by simp

lemma load_makes_builds:
  assumes "len (deviceMakes c) = 0"
    and "internalGet env c ''/v2/alldevices/json'' = Inr body"
    and "unmarshal_makes env body = Inr models"
  shows "loadDeviceMakesData env c =
           \<lparr>ret = None, err = None,
            cl = c\<lparr>deviceMakesMap := Some (fst (fold add_make models (Map.empty, []))),
                   deviceMakes := Some (snd (fold add_make models (Map.empty, [])))\<rparr>,
            calls = [createURL c ''/v2/alldevices/json'']\<rparr>"
  unfolding loadDeviceMakesData_def Let_def using assms by (simp add: case_prod_beta)





lemma load_raw_oses:
  assumes "len (deviceOses c) = 0"
    and "http_get env (createURL c ''/v2/alldeviceosversions/json'') = Inr body"
    and "unmarshal_oses env body = Inr raw_oses"
  shows "loadDeviceOsesData env c =
           \<lparr>ret = None, err = None,
            cl = c\<lparr>deviceOsVerMap := Some [''Android'' \<mapsto> [''7.0'', []], ''iOS'' \<mapsto> [''10.2'']],
                   deviceOses := Some [''Android'', ''iOS'']\<rparr>,
            calls = [createURL c ''/v2/alldeviceosversions/json'']\<rparr>"
proof -
  from assms(2) have "internalGet env c ''/v2/alldeviceosversions/json'' = Inr body"
    by (simp add: internalGet_def)
  from load_oses_builds [OF assms(1) this assms(3)] show ?thesis
    by (simp add: fold_raw_oses)
qed

text \<open>
  C9.  A client whose OS table is empty meets a server whose OS listing decodes to the raw
  list \<open>[(Android, 7.0), (Android, ""), (iOS, 10.2)]\<close>.  Each of the three calls, made on
  that client, requests the listing once, builds the table and answers from it:
  \<open>GetAllOSes\<close> returns \<open>["Android", "iOS"]\<close>, the names in first-seen order;
  \<open>GetAllVersionsForOS("Android")\<close> returns \<open>["7.0"]\<close> with no error, while the map it
  leaves in the client still holds \<open>["7.0", ""]\<close> for Android; and for any other name
  \<open>GetAllVersionsForOS\<close> returns nil with the does-not-exist error, not an empty list.
  On the client such a call leaves, the three calls give the same answers whatever the
  network does, and request nothing.
\<close>

theorem os_table_scenario:
  assumes "len (deviceOses c) = 0"
    and "http_get env (createURL c ''/v2/alldeviceosversions/json'') = Inr body"
    and "unmarshal_oses env body = Inr raw_oses"
    and "name \<noteq> ''Android''" and "name \<noteq> ''iOS''"
  shows "(let url = createURL c ''/v2/alldeviceosversions/json'';
              c1 = c\<lparr>deviceOsVerMap := Some [''Android'' \<mapsto> [''7.0'', []], ''iOS'' \<mapsto> [''10.2'']],
                      deviceOses := Some [''Android'', ''iOS'']\<rparr>;
              absent = errors_New (''Error getting data from WM server: '' @ name
                                    @ '' does not exist'')
          in GetAllOSes env c
               = \<lparr>ret = Some [''Android'', ''iOS''], err = None, cl = c1, calls = [url]\<rparr>
           \<and> GetAllVersionsForOS env c ''Android''
               = \<lparr>ret = Some [''7.0''], err = None, cl = c1, calls = [url]\<rparr>
           \<and> GetAllVersionsForOS env c name
               = \<lparr>ret = None, err = Some absent, cl = c1, calls = [url]\<rparr>
           \<and> os_versions c1 ''Android'' = Some [''7.0'', []]
           \<and> GetAllOSes env' c1
               = \<lparr>ret = Some [''Android'', ''iOS''], err = None, cl = c1, calls = []\<rparr>
           \<and> GetAllVersionsForOS env' c1 ''Android''
               = \<lparr>ret = Some [''7.0''], err = None, cl = c1, calls = []\<rparr>
           \<and> GetAllVersionsForOS env' c1 name
               = \<lparr>ret = None, err = Some absent, cl = c1, calls = []\<rparr>)"
proof -
  let ?c1 = "c\<lparr>deviceOsVerMap := Some [''Android'' \<mapsto> [''7.0'', []], ''iOS'' \<mapsto> [''10.2'']],
               deviceOses := Some [''Android'', ''iOS'']\<rparr>"
  note ld = load_raw_oses [OF assms(1-3)]
  have "0 < len (deviceOses ?c1)" by (simp add: len_def)
  then have ld': "loadDeviceOsesData env' ?c1 = \<lparr>ret = None, err = None, cl = ?c1, calls = []\<rparr>"
    by (rule load_oses_loaded)
  have v1: "os_versions ?c1 ''Android'' = Some [''7.0'', []]"
    by (simp add: os_versions_def)
  have v2: "os_versions ?c1 name = None"
    using assms(4,5) by (simp add: os_versions_def)
  have a: "GetAllOSes env c
             = \<lparr>ret = Some [''Android'', ''iOS''], err = None, cl = ?c1,
                calls = [createURL c ''/v2/alldeviceosversions/json'']\<rparr>"
    by (simp add: GetAllOSes_def ld)
  have b: "GetAllVersionsForOS env c ''Android''
             = \<lparr>ret = Some [''7.0''], err = None, cl = ?c1,
                calls = [createURL c ''/v2/alldeviceosversions/json'']\<rparr>"
    by (simp add: GetAllVersionsForOS_def ld v1)
  have c: "GetAllVersionsForOS env c name
             = \<lparr>ret = None,
                err = Some (errors_New (''Error getting data from WM server: '' @ name
                                         @ '' does not exist'')),
                cl = ?c1, calls = [createURL c ''/v2/alldeviceosversions/json'']\<rparr>"
    by (simp add: GetAllVersionsForOS_def ld v2)
  have a': "GetAllOSes env' ?c1
             = \<lparr>ret = Some [''Android'', ''iOS''], err = None, cl = ?c1, calls = []\<rparr>"
    by (simp add: GetAllOSes_def ld')
  have b': "GetAllVersionsForOS env' ?c1 ''Android''
             = \<lparr>ret = Some [''7.0''], err = None, cl = ?c1, calls = []\<rparr>"
    by (simp add: GetAllVersionsForOS_def ld' v1)
  have c': "GetAllVersionsForOS env' ?c1 name
             = \<lparr>ret = None,
                err = Some (errors_New (''Error getting data from WM server: '' @ name
                                         @ '' does not exist'')),
                cl = ?c1, calls = []\<rparr>"
    by (simp add: GetAllVersionsForOS_def ld' v2)
  show ?thesis unfolding Let_def using a b c v1 a' b' c' by blast
qed

theorem os_table_scenario_witness:
  "len (deviceOses created_client) = 0
   \<and> http_get os_net (createURL created_client ''/v2/alldeviceosversions/json'') = Inr ''os-listing''
   \<and> unmarshal_oses os_net ''os-listing'' = Inr raw_oses
   \<and> GetAllOSes os_net created_client
       = \<lparr>ret = Some [''Android'', ''iOS''], err = None,
          cl = created_client\<lparr>deviceOsVerMap := Some [''Android'' \<mapsto> [''7.0'', []],
                                                      ''iOS'' \<mapsto> [''10.2'']],
                              deviceOses := Some [''Android'', ''iOS'']\<rparr>,
          calls = [''http://localhost:8080/v2/alldeviceosversions/json'']\<rparr>
   \<and> ret (GetAllVersionsForOS os_net created_client ''Android'') = Some [''7.0'']
   \<and> err (GetAllVersionsForOS os_net created_client ''Android'') = None
   \<and> ret (GetAllVersionsForOS os_net created_client ''Symbian'') = None
   \<and> err (GetAllVersionsForOS os_net created_client ''Symbian'')
       = Some (errors_New ''Error getting data from WM server: Symbian does not exist'')
   \<and> ret (GetAllVersionsForOS down_net (cl (GetAllOSes os_net created_client)) ''Android'')
       = Some [''7.0'']
   \<and> calls (GetAllVersionsForOS down_net (cl (GetAllOSes os_net created_client)) ''Android'') = []"
proof -
  have h1: "len (deviceOses created_client) = 0"
    by (simp add: created_client_tables len_def)
  have h2: "http_get os_net (createURL created_client ''/v2/alldeviceosversions/json'')
              = Inr ''os-listing''"
    by (simp add: created_client_url http_get_http os_net_def)
  have h3: "unmarshal_oses os_net ''os-listing'' = Inr raw_oses"
    by (simp add: os_net_def)
  have h4: "''Symbian'' \<noteq> ''Android''" "''Symbian'' \<noteq> ''iOS''" by simp_all
  note w = os_table_scenario [OF h1 h2 h3 h4, of down_net]
  show ?thesis
    using w h1 h2 h3 by (simp add: Let_def created_client_url)
qed


section \<open>Construction\<close>

lemma GetInfo_get_fails:
  "internalGet env c ''/v2/getinfo/json'' = Inl berr \<Longrightarrow>
   GetInfo env c = \<lparr>ret = None, err = Some berr, cl = c, calls = [createURL c ''/v2/getinfo/json'']\<rparr>"
  unfolding GetInfo_def Let_def by simp

lemma GetInfo_decode_fails:
  "internalGet env c ''/v2/getinfo/json'' = Inr body \<Longrightarrow> unmarshal_info env body = Inl merror \<Longrightarrow>
   GetInfo env c = \<lparr>ret = None, err = Some merror, cl = c, calls = [createURL c ''/v2/getinfo/json'']\<rparr>"
  unfolding GetInfo_def Let_def by simp

lemma GetInfo_bad_data:
  "internalGet env c ''/v2/getinfo/json'' = Inr body \<Longrightarrow> unmarshal_info env body = Inr info \<Longrightarrow>
   \<not> checkData info \<Longrightarrow>
   GetInfo env c = \<lparr>ret = None,
                     err = Some (errors_New ''server returned empty data or a wrong json format''),
                     cl = c, calls = [createURL c ''/v2/getinfo/json'']\<rparr>"
  unfolding GetInfo_def Let_def by simp

lemma GetInfo_ok:
  "internalGet env c ''/v2/getinfo/json'' = Inr body \<Longrightarrow> unmarshal_info env body = Inr info \<Longrightarrow>
   checkData info \<Longrightarrow>
   GetInfo env c = \<lparr>ret = Some info, err = None, cl = clearCachesIfNeeded (ltime info) c,
                     calls = [createURL c ''/v2/getinfo/json'']\<rparr>"
  unfolding GetInfo_def Let_def by simp


lemma Create_unfold:
  "Create env Scheme Host Port BaseURI =
     (case err (GetInfo env (new_client Scheme Host Port BaseURI)) of
        Some e \<Rightarrow> (None, Some e)
      | None \<Rightarrow>
          (case ret (GetInfo env (new_client Scheme Host Port BaseURI)) of
             None \<Rightarrow> (None, Some (runtime_panic ''nil pointer dereference''))
           | Some data \<Rightarrow>
               (Some ((cl (GetInfo env (new_client Scheme Host Port BaseURI)))
                        \<lparr>ImportantHeaders := important_headers data,
                         StaticCaps := sort_Strings (static_caps data),
                         VirtualCaps := sort_Strings (virtual_caps data)\<rparr>),
                None)))"
  unfolding Create_def new_client_def Let_def by (rule refl)









lemma new_client_url:
  "createURL (new_client ''smtp'' ''localhost'' ''8080'' []) p = ''smtp://localhost:8080'' @ p"
  "createURL (new_client ''http'' ''localhost'' ''8080'' []) p = ''http://localhost:8080'' @ p"
  "createURL (new_client [] ''localhost'' ''8080'' []) p = ''http://localhost:8080'' @ p"
  by (simp_all add: createURL_def new_client_def zero_WmClient_def)




lemma info1_ok: "checkData info1"
  by (simp add: checkData_def info1_def len_def)

lemma info_net_handshake:
  "internalGet info_net (new_client [] ''localhost'' ''8080'' []) ''/v2/getinfo/json'' = Inr ''info''"
  "unmarshal_info info_net ''info'' = Inr info1"
  by (simp_all add: internalGet_def new_client_url http_get_http info_net_def down_net_def)


section \<open>Lookups\<close>

lemma ImportantHeaders_clearCachesIfNeeded [simp]:
  "ImportantHeaders (clearCachesIfNeeded lt c) = ImportantHeaders c"
  by (simp add: clearCachesIfNeeded_def clearCache_def)

lemma getUserAgentCacheKey_clearCachesIfNeeded [simp]:
  "getUserAgentCacheKey (clearCachesIfNeeded lt c) h = getUserAgentCacheKey c h"
  by (simp add: getUserAgentCacheKey_def)

lemma op_request_simps:
  "op_request env c (ByDeviceID i) =
     \<lparr>lookup_headers = None, requested_caps = requestedStaticCaps c,
      requested_vcaps = requestedVirtualCaps c, wurfl_id = i, tac_code = []\<rparr>"
  "op_request env c (ByUserAgent ua) =
     \<lparr>lookup_headers = Some [userAgentHeader \<mapsto> ua], requested_caps = requestedStaticCaps c,
      requested_vcaps = requestedVirtualCaps c, wurfl_id = [], tac_code = []\<rparr>"
  "op_request env c (ByHeaders hs) =
     \<lparr>lookup_headers =
        Some (copy_headers (\<lambda>name. map_get (lowerKeyMap env hs) (strings_ToLower env name))
                (elems (ImportantHeaders c))),
      requested_caps = requestedStaticCaps c,
      requested_vcaps = requestedVirtualCaps c, wurfl_id = [], tac_code = []\<rparr>"
  "op_request env c (ByRequest g) =
     \<lparr>lookup_headers = Some (copy_headers g (elems (ImportantHeaders c))),
      requested_caps = requestedStaticCaps c,
      requested_vcaps = requestedVirtualCaps c, wurfl_id = [], tac_code = []\<rparr>"
  by (simp_all add: op_request_def)

lemma op_key_simps:
  "op_key env c (ByUserAgent ua) = getUserAgentCacheKey c [userAgentHeader \<mapsto> ua]"
  "op_key env c (ByHeaders hs) =
     getUserAgentCacheKey c
       (copy_headers (\<lambda>name. map_get (lowerKeyMap env hs) (strings_ToLower env name))
          (elems (ImportantHeaders c)))"
  "op_key env c (ByRequest g) = getUserAgentCacheKey c (copy_headers g (elems (ImportantHeaders c)))"
  by simp_all

lemma LookupDeviceID_cached:
  "LookupDeviceID env c i =
     cached_lookup env c DeviceCache i (op_request env c (ByDeviceID i)) ''/v2/lookupdeviceid/json''"
  unfolding LookupDeviceID_def cached_lookup_def Let_def op_request_simps
    cache_of.simps with_cache.simps
  by (rule refl)

lemma LookupUserAgent_cached:
  "LookupUserAgent env c ua =
     cached_lookup env c HeaderCache (op_key env c (ByUserAgent ua)) (op_request env c (ByUserAgent ua))
       ''/v2/lookupuseragent/json''"
  unfolding LookupUserAgent_def cached_lookup_def Let_def op_request_simps op_key_simps
    cache_of.simps with_cache.simps getUserAgentCacheKey_clearCachesIfNeeded
  by (rule refl)

lemma LookupHeaders_cached:
  "LookupHeaders env c hs =
     cached_lookup env c HeaderCache (op_key env c (ByHeaders hs)) (op_request env c (ByHeaders hs))
       ''/v2/lookuprequest/json''"
  unfolding LookupHeaders_def cached_lookup_def Let_def op_request_simps op_key_simps
    cache_of.simps with_cache.simps getUserAgentCacheKey_clearCachesIfNeeded
  by (rule refl)

lemma LookupRequest_cached:
  "LookupRequest env c g =
     cached_lookup env c HeaderCache (op_key env c (ByRequest g)) (op_request env c (ByRequest g))
       ''/v2/lookuprequest/json''"
  unfolding LookupRequest_def cached_lookup_def Let_def op_request_simps op_key_simps
    cache_of.simps with_cache.simps getUserAgentCacheKey_clearCachesIfNeeded
  by (rule refl)

lemma Lookup_cached:
  "Lookup env c lop =
     cached_lookup env c (op_cache lop) (op_key env c lop) (op_request env c lop) (op_path lop)"
  by (cases lop)
     (simp_all add: LookupDeviceID_cached LookupUserAgent_cached LookupHeaders_cached
        LookupRequest_cached)

lemma internalLookup_post_fails:
  "http_post env (createURL c path) request = Inl e \<Longrightarrow>
   internalLookup env c request path
     = \<lparr>ret = None, err = Some e, cl = c, calls = [createURL c path]\<rparr>"
  unfolding internalLookup_def Let_def by simp

lemma internalLookup_decode_fails:
  "http_post env (createURL c path) request = Inr body \<Longrightarrow> unmarshal_device env body = Inl e \<Longrightarrow>
   internalLookup env c request path
     = \<lparr>ret = None, err = Some e, cl = c, calls = [createURL c path]\<rparr>"
  unfolding internalLookup_def Let_def by simp

lemma internalLookup_app_error:
  "http_post env (createURL c path) request = Inr body \<Longrightarrow> unmarshal_device env body = Inr d \<Longrightarrow>
   Error d \<noteq> [] \<Longrightarrow>
   internalLookup env c request path
     = \<lparr>ret = Some (d\<lparr>Error := []\<rparr>),
        err = Some (errors_New (''Received error from WM server: '' @ Error d)),
        cl = c, calls = [createURL c path]\<rparr>"
  unfolding internalLookup_def Let_def by simp

lemma internalLookup_ok:
  "http_post env (createURL c path) request = Inr body \<Longrightarrow> unmarshal_device env body = Inr d \<Longrightarrow>
   Error d = [] \<Longrightarrow>
   internalLookup env c request path
     = \<lparr>ret = Some d, err = None, cl = c, calls = [createURL c path]\<rparr>"
  unfolding internalLookup_def Let_def by simp

text \<open>The four shapes of what \<open>internalLookup\<close> returns.\<close>

lemma internalLookup_cases:
  obtains (failed) e where
      "internalLookup env c request path
         = \<lparr>ret = None, err = Some e, cl = c, calls = [createURL c path]\<rparr>"
  | (app_error) d where "Error d \<noteq> []"
      "internalLookup env c request path
         = \<lparr>ret = Some (d\<lparr>Error := []\<rparr>),
            err = Some (errors_New (''Received error from WM server: '' @ Error d)),
            cl = c, calls = [createURL c path]\<rparr>"
  | (ok) d where "Error d = []"
      "internalLookup env c request path
         = \<lparr>ret = Some d, err = None, cl = c, calls = [createURL c path]\<rparr>"
proof (cases "http_post env (createURL c path) request")
  case (Inl e)
  from internalLookup_post_fails [OF this] show ?thesis by (rule failed)
next
  case (Inr body)
  note post = this
  show ?thesis
  proof (cases "unmarshal_device env body")
    case (Inl e)
    from internalLookup_decode_fails [OF post this] show ?thesis by (rule failed)
  next
    case (Inr d)
    show ?thesis
    proof (cases "Error d = []")
      case True
      from True internalLookup_ok [OF post Inr True] show ?thesis by (rule ok)
    next
      case False
      from False internalLookup_app_error [OF post Inr False] show ?thesis by (rule app_error)
    qed
  qed
qed

lemma internalLookup_blanks_Error:
  "ret (internalLookup env c request path) = Some d \<Longrightarrow> Error d = []"
  by (cases rule: internalLookup_cases [of env c request path]) auto

lemma cached_lookup_hit:
  "probe key (cache_of i c) = Some (jdd, u) \<Longrightarrow>
   cached_lookup env c i key request path
     = \<lparr>ret = Some jdd, err = None, cl = with_cache i (Some u) c, calls = []\<rparr>"
  unfolding cached_lookup_def by simp

lemma cached_lookup_miss_error:
  "probe key (cache_of i c) = None \<Longrightarrow> err (internalLookup env c request path) = Some e \<Longrightarrow>
   cached_lookup env c i key request path = internalLookup env c request path"
  unfolding cached_lookup_def Let_def by simp

lemma cached_lookup_miss_ok:
  "probe key (cache_of i c) = None \<Longrightarrow>
   internalLookup env c request path = \<lparr>ret = Some d, err = None, cl = c, calls = [url]\<rparr> \<Longrightarrow>
   cached_lookup env c i key request path
     = \<lparr>ret = Some d, err = None,
        cl = with_cache i (store key d (cache_of i (clearCachesIfNeeded (Ltime d) c)))
               (clearCachesIfNeeded (Ltime d) c),
        calls = [url]\<rparr>"
  unfolding cached_lookup_def Let_def by simp

text \<open>
  C7.  Take any of the four lookups that reaches the network (nothing cached under its key)
  and a response body that decodes to an object \<open>d\<close> whose \<open>Error\<close> field is non-empty.
  The lookup returns the error \<open>Received error from WM server: \<close> followed by the server's
  message, together with the object \<open>d\<close> itself with only \<open>Error\<close> blanked, so its API
  version, creation timestamp, load-time token and capabilities are those parsed from the
  response.  Client and caches are left as they were.
\<close>

theorem lookup_application_error:
  assumes "probe (op_key env c lop) (cache_of (op_cache lop) c) = None"
    and "http_post env (createURL c (op_path lop)) (op_request env c lop) = Inr body"
    and "unmarshal_device env body = Inr d"
    and "Error d \<noteq> []"
  shows "Lookup env c lop
           = \<lparr>ret = Some (d\<lparr>Error := []\<rparr>),
              err = Some (errors_New (''Received error from WM server: '' @ Error d)),
              cl = c, calls = [createURL c (op_path lop)]\<rparr>
       \<and> map_option APIVersion (ret (Lookup env c lop)) = Some (APIVersion d)
       \<and> map_option Mtime (ret (Lookup env c lop)) = Some (Mtime d)
       \<and> map_option Ltime (ret (Lookup env c lop)) = Some (Ltime d)
       \<and> map_option Capabilities (ret (Lookup env c lop)) = Some (Capabilities d)"
proof -
  note il = internalLookup_app_error [OF assms(2,3,4)]
  then have "err (internalLookup env c (op_request env c lop) (op_path lop))
               = Some (errors_New (''Received error from WM server: '' @ Error d))"
    by simp
  from cached_lookup_miss_error [OF assms(1) this]
  have "Lookup env c lop = internalLookup env c (op_request env c lop) (op_path lop)"
    by (simp add: Lookup_cached)
  with il show ?thesis by simp
qed

lemma created_client_caches:
  "deviceCache created_client = None" "userAgentCache created_client = None"
  by (simp_all add: created_client_def zero_WmClient_def)

lemma probe_nil: "probe key None = None"
  by (simp add: probe_def)

theorem lookup_application_error_witness:
  "probe (op_key app_error_net created_client (ByDeviceID ''nokia_generic_series40_wrong''))
         (cache_of (op_cache (ByDeviceID ''nokia_generic_series40_wrong'')) created_client) = None
 \<and> http_post app_error_net
      (createURL created_client (op_path (ByDeviceID ''nokia_generic_series40_wrong'')))
      (op_request app_error_net created_client (ByDeviceID ''nokia_generic_series40_wrong''))
      = Inr ''device''
 \<and> unmarshal_device app_error_net ''device'' = Inr app_error_dev
 \<and> Error app_error_dev \<noteq> []
 \<and> Lookup app_error_net created_client (ByDeviceID ''nokia_generic_series40_wrong'')
      = \<lparr>ret = Some \<lparr>APIVersion = ''2.1.3'', Capabilities = None, Error = [],
                      Mtime = 1500000000, Ltime = ''t1''\<rparr>,
         err = Some (errors_New ''Received error from WM server: device is missing''),
         cl = created_client, calls = [''http://localhost:8080/v2/lookupdeviceid/json'']\<rparr>"
proof -
  have p: "probe (op_key app_error_net created_client (ByDeviceID ''nokia_generic_series40_wrong''))
         (cache_of (op_cache (ByDeviceID ''nokia_generic_series40_wrong'')) created_client) = None"
    by (simp add: created_client_caches probe_nil)
  have n1: "http_post app_error_net
      (createURL created_client (op_path (ByDeviceID ''nokia_generic_series40_wrong'')))
      (op_request app_error_net created_client (ByDeviceID ''nokia_generic_series40_wrong''))
      = Inr ''device''"
    by (simp add: created_client_url http_post_http app_error_net_def)
  have n2: "unmarshal_device app_error_net ''device'' = Inr app_error_dev"
    by (simp add: app_error_net_def)
  have e: "Error app_error_dev \<noteq> []" by (simp add: app_error_dev_def)
  note w = lookup_application_error [OF p n1 n2 e]
  from w p n1 n2 e show ?thesis
    by (simp add: created_client_url app_error_dev_def)
qed

section \<open>The caches under lookups\<close>

lemma lru_Get_front:
  "ll u = (key, v) # rest \<Longrightarrow> lru_Get key u = (Some v, u)"
  by (simp add: lru_Get_def)

lemma lru_Get_miss:
  "map_of (ll u) key = None \<Longrightarrow> lru_Get key u = (None, u)"
  by (simp add: lru_Get_def)

lemma lru_Get_hit:
  assumes "lru_Get key u = (Some v, u')"
  shows "ll u' = (key, v) # remove1 (key, v) (ll u) \<and> MaxEntries u' = MaxEntries u"
  using assms by (auto simp: lru_Get_def split: option.splits)

lemma lru_Add_MaxEntries [simp]: "MaxEntries (lru_Add key d u) = MaxEntries u"
  by (simp add: lru_Add_def lru_RemoveOldest_def Let_def split: option.splits)

lemma lru_Add_front:
  assumes "0 \<le> MaxEntries u"
  shows "\<exists>rest. ll (lru_Add key d u) = (key, d) # rest"
proof (cases "map_of (ll u) key")
  case (Some old)
  then show ?thesis by (simp add: lru_Add_def)
next
  case None
  show ?thesis
  proof (cases "ll u")
    case Nil
    with None assms show ?thesis
      by (auto simp: lru_Add_def lru_Len_def lru_RemoveOldest_def Let_def)
  next
    case (Cons e es)
    with None show ?thesis
      by (simp add: lru_Add_def lru_Len_def lru_RemoveOldest_def Let_def)
  qed
qed

lemma lru_Add_empty:
  "ll u = [] \<Longrightarrow> ll (lru_Add key d u) = (if 0 \<le> MaxEntries u then [(key, d)] else [])"
  by (auto simp: lru_Add_def lru_Len_def lru_RemoveOldest_def Let_def)

lemma probe_front:
  "cache = Some u \<Longrightarrow> ll u = (key, v) # rest \<Longrightarrow> probe key cache = Some (v, u)"
  by (simp add: probe_def lru_Get_front)

lemma probe_hit:
  assumes "probe key cache = Some (v, u')"
  shows "\<exists>u. cache = Some u \<and> MaxEntries u' = MaxEntries u
             \<and> ll u' = (key, v) # remove1 (key, v) (ll u)"
proof (cases cache)
  case None
  with assms show ?thesis by (simp add: probe_def)
next
  case (Some u)
  with assms have "lru_Get key u = (Some v, u')"
    by (cases "lru_Get key u") (auto simp: probe_def split: option.splits)
  from lru_Get_hit [OF this] Some show ?thesis by simp
qed

lemma cache_of_with_cache [simp]: "cache_of i (with_cache i x c) = x"
  by (cases i) simp_all

lemma cache_of_with_cache_other [simp]: "cache_of (other_cache i) (with_cache i x c) = cache_of (other_cache i) c"
  by (cases i) simp_all

lemma with_cache_same: "cache_of i c = x \<Longrightarrow> with_cache i x c = c"
  by (cases i) auto

lemma with_cache_fields [simp]:
  "ImportantHeaders (with_cache i x c) = ImportantHeaders c"
  "clientLtime (with_cache i x c) = clientLtime c"
  by (cases i; simp)+

lemma cache_of_clearCache: "cache_of i (clearCache c) = clear_if_used (cache_of i c)"
  by (cases i) (simp_all add: clearCache_def)

lemma cache_of_clientLtime_update [simp]: "cache_of i (c\<lparr>clientLtime := lt\<rparr>) = cache_of i c"
  by (cases i) simp_all

lemma cache_of_clearCachesIfNeeded:
  "cache_of i (clearCachesIfNeeded lt c)
     = (if lt \<noteq> [] \<and> clientLtime c \<noteq> lt then clear_if_used (cache_of i c) else cache_of i c)"
  by (simp add: clearCachesIfNeeded_def cache_of_clearCache)

lemma clientLtime_clearCachesIfNeeded:
  "lt \<noteq> [] \<Longrightarrow> clientLtime (clearCachesIfNeeded lt c) = lt"
  by (auto simp: clearCachesIfNeeded_def clearCache_def)

lemma clear_if_used_Some:
  "clear_if_used (Some u) = Some (u\<lparr>ll := []\<rparr>)"
  by (cases "ll u") (simp_all add: clear_if_used_def lru_Len_def lru_Clear_def)

lemma limit_clear_if_used [simp]:
  "map_option MaxEntries (clear_if_used cache) = map_option MaxEntries cache"
  by (cases cache) (simp_all add: clear_if_used_Some, simp add: clear_if_used_def)

lemma limit_store [simp]:
  "map_option MaxEntries (store key d cache) = map_option MaxEntries cache"
  by (cases cache) (simp_all add: store_def)

lemma limit_clearCachesIfNeeded:
  "map_option MaxEntries (cache_of i (clearCachesIfNeeded lt c)) = map_option MaxEntries (cache_of i c)"
  by (simp add: cache_of_clearCachesIfNeeded)

text \<open>What a lookup does: a hit, a network call that fails, or a network call that succeeds.\<close>

lemma Lookup_outcomes:
  obtains (hit) v u' where
      "probe (op_key env c lop) (cache_of (op_cache lop) c) = Some (v, u')"
      "Lookup env c lop
         = \<lparr>ret = Some v, err = None, cl = with_cache (op_cache lop) (Some u') c, calls = []\<rparr>"
  | (net_failed) x e where
      "probe (op_key env c lop) (cache_of (op_cache lop) c) = None"
      "Lookup env c lop
         = \<lparr>ret = x, err = Some e, cl = c, calls = [createURL c (op_path lop)]\<rparr>"
      "\<And>d. x = Some d \<Longrightarrow> Error d = []"
  | (net_ok) d where
      "probe (op_key env c lop) (cache_of (op_cache lop) c) = None"
      "Error d = []"
      "Lookup env c lop
         = \<lparr>ret = Some d, err = None,
            cl = with_cache (op_cache lop)
                   (store (op_key env c lop) d
                      (cache_of (op_cache lop) (clearCachesIfNeeded (Ltime d) c)))
                   (clearCachesIfNeeded (Ltime d) c),
            calls = [createURL c (op_path lop)]\<rparr>"
proof (cases "probe (op_key env c lop) (cache_of (op_cache lop) c)")
  case (Some p)
  obtain v u' where p: "p = (v, u')" by (cases p)
  from Some p cached_lookup_hit [of "op_key env c lop" "op_cache lop" c v u']
  show ?thesis by (intro hit [of v u']) (simp_all add: Lookup_cached)
next
  case None
  show ?thesis
  proof (cases rule: internalLookup_cases [of env c "op_request env c lop" "op_path lop"])
    case (failed e)
    with cached_lookup_miss_error [OF None, of env "op_request env c lop" "op_path lop" e]
    show ?thesis by (intro net_failed [of None e]) (simp_all add: Lookup_cached None)
  next
    case (app_error d)
    with cached_lookup_miss_error [OF None, of env "op_request env c lop" "op_path lop"]
    show ?thesis
      by (intro net_failed [of "Some (d\<lparr>Error := []\<rparr>)"
                "errors_New (''Received error from WM server: '' @ Error d)"])
         (auto simp: Lookup_cached None)
  next
    case (ok d)
    from cached_lookup_miss_ok [OF None ok(2)] ok(1)
    show ?thesis by (intro net_ok [of d]) (simp_all add: Lookup_cached None)
  qed
qed

lemma ImportantHeaders_Lookup [simp]:
  "ImportantHeaders (cl (Lookup env c lop)) = ImportantHeaders c"
  by (cases rule: Lookup_outcomes [where c = c and lop = lop and env = env]) simp_all

lemma op_key_cong:
  "ImportantHeaders c' = ImportantHeaders c \<Longrightarrow> op_key env c' lop = op_key env c lop"
  by (cases lop) (simp_all add: getUserAgentCacheKey_def)

lemma op_key_Lookup [simp]: "op_key env' (cl (Lookup env c lop')) lop = op_key env' c lop"
  by (rule op_key_cong) simp

lemma limit_with_cache:
  "map_option MaxEntries (cache_of j (with_cache i x c))
     = (if j = i then map_option MaxEntries x else map_option MaxEntries (cache_of j c))"
  by (cases i; cases j) simp_all

lemma limit_Lookup [simp]:
  "map_option MaxEntries (cache_of j (cl (Lookup env c lop))) = map_option MaxEntries (cache_of j c)"
proof (cases rule: Lookup_outcomes [where c = c and lop = lop and env = env])
  case (hit v u')
  from probe_hit [OF hit(1)] hit(2) show ?thesis
    by (auto simp: limit_with_cache)
next
  case (net_failed x e)
  then show ?thesis by simp
next
  case (net_ok d)
  then show ?thesis by (simp add: limit_with_cache limit_clearCachesIfNeeded)
qed

text \<open>After a successful lookup on a cache of non-negative limit the entry is in front.\<close>

lemma first_lookup_front:
  assumes "cache_of (op_cache lop) c = Some u" and "0 \<le> MaxEntries u"
    and "err (Lookup env c lop) = None"
  shows "\<exists>v u1 rest. ret (Lookup env c lop) = Some v
           \<and> cache_of (op_cache lop) (cl (Lookup env c lop)) = Some u1
           \<and> ll u1 = (op_key env c lop, v) # rest"
proof (cases rule: Lookup_outcomes [where c = c and lop = lop and env = env])
  case (hit v u')
  from probe_hit [OF hit(1)] hit(2) show ?thesis by auto
next
  case (net_failed x e)
  with assms(3) show ?thesis by simp
next
  case (net_ok d)
  let ?c1 = "clearCachesIfNeeded (Ltime d) c"
  from assms(1,2) have "map_option MaxEntries (cache_of (op_cache lop) ?c1) = Some (MaxEntries u)"
    by (simp add: limit_clearCachesIfNeeded)
  then obtain u0 where u0: "cache_of (op_cache lop) ?c1 = Some u0" "MaxEntries u0 = MaxEntries u"
    by auto
  from lru_Add_front [of u0 "op_key env c lop" d] u0 assms(2)
  obtain rest where "ll (lru_Add (op_key env c lop) d u0) = (op_key env c lop, d) # rest" by auto
  with net_ok(3) u0 show ?thesis by (simp add: store_def)
qed

lemma lookup_again:
  assumes "cache_of (op_cache lop) c1 = Some u1" and "ll u1 = (k, v) # rest"
    and "op_cache lop' = op_cache lop" and "op_key env' c1 lop' = k"
  shows "Lookup env' c1 lop' = \<lparr>ret = Some v, err = None, cl = c1, calls = []\<rparr>"
proof -
  from probe_front [OF assms(1,2)]
  have "probe (op_key env' c1 lop') (cache_of (op_cache lop') c1) = Some (v, u1)"
    by (simp add: assms(3,4))
  from cached_lookup_hit [OF this] with_cache_same [OF assms(1)] show ?thesis
    by (simp add: Lookup_cached assms(3))
qed

lemma Lookups_again:
  assumes "cache_of (op_cache lop) c1 = Some u1" and "ll u1 = (op_key env c1 lop, v) # rest"
    and "list_all (same_entry c1 (env, lop)) steps"
  shows "Lookups steps c1 = replicate (length steps) \<lparr>ret = Some v, err = None, cl = c1, calls = []\<rparr>"
  using assms(3)
proof (induction steps)
  case Nil
  show ?case by simp
next
  case (Cons s steps)
  obtain env' lop' where s: "s = (env', lop')" by (cases s)
  with Cons.prems have se: "same_entry c1 (env, lop) (env', lop')"
    and rest: "list_all (same_entry c1 (env, lop)) steps"
    by simp_all
  from se have same: "op_cache lop' = op_cache lop" "op_key env' c1 lop' = op_key env c1 lop"
    by (simp_all add: same_entry_def)
  from lookup_again [OF assms(1,2) same]
  have "Lookup env' c1 lop' = \<lparr>ret = Some v, err = None, cl = c1, calls = []\<rparr>" .
  with Cons.IH [OF rest] s show ?case by simp
qed

text \<open>
  C8, as amended.  The cache the lookup uses was sized with a non-negative limit, and the
  first lookup succeeds.  Then any further lookups that address the same cache with the
  same key (the same user agent, the same device id, header maps with the same
  fingerprint, each fingerprint taken with the \<open>strings.ToLower\<close> its lookup runs with),
  run one after the other against any networks at all, each return the first lookup's
  payload with no error, request nothing from the network, and leave the client, and so the
  cache sizes, exactly as the first lookup left them.
\<close>

theorem repeated_lookups_served_from_cache:
  assumes "cache_of (op_cache lop) c = Some u" and "0 \<le> MaxEntries u"
    and "err (Lookup env c lop) = None"
    and "list_all (same_entry c (env, lop)) steps"
  shows "Lookups steps (cl (Lookup env c lop))
           = replicate (length steps)
               \<lparr>ret = ret (Lookup env c lop), err = None, cl = cl (Lookup env c lop), calls = []\<rparr>
       \<and> map calls (Lookups steps (cl (Lookup env c lop))) = replicate (length steps) []
       \<and> map ret (Lookups steps (cl (Lookup env c lop)))
           = replicate (length steps) (ret (Lookup env c lop))
       \<and> map (\<lambda>r. GetActualCacheSizes (cl r)) (Lookups steps (cl (Lookup env c lop)))
           = replicate (length steps) (GetActualCacheSizes (cl (Lookup env c lop)))"
proof -
  let ?c1 = "cl (Lookup env c lop)"
  from first_lookup_front [OF assms(1,2,3)]
  obtain v u1 rest where v: "ret (Lookup env c lop) = Some v"
    and u1: "cache_of (op_cache lop) ?c1 = Some u1" "ll u1 = (op_key env c lop, v) # rest"
    by blast
  have same: "same_entry ?c1 a = same_entry c a" for a
    by (rule ext) (simp add: same_entry_def)
  from u1 have front: "ll u1 = (op_key env ?c1 lop, v) # rest" by simp
  from assms(4) have "list_all (same_entry ?c1 (env, lop)) steps"
    by (simp add: same)
  from Lookups_again [OF u1(1) front this]
  have "Lookups steps ?c1
          = replicate (length steps) \<lparr>ret = Some v, err = None, cl = ?c1, calls = []\<rparr>" .
  with v show ?thesis by simp
qed

lemma sized_client_fields:
  "clientLtime (sized_client n) = ''t1''"
  "createURL (sized_client n) p = ''http://localhost:8080'' @ p"
  "deviceCache (sized_client n) = Some \<lparr>MaxEntries = 20000, ll = []\<rparr>"
  "userAgentCache (sized_client n) = Some \<lparr>MaxEntries = n, ll = []\<rparr>"
  by (simp_all add: sized_client_def SetCacheSize_def warm_client_def createURL_def lru_New_def
      deviceDefaultCacheSize_def)

lemma dev_net_answers:
  "http_post (dev_net d) (createURL (sized_client n) p) req = Inr ''device''"
  "unmarshal_device (dev_net d) b = Inr d"
  by (simp_all add: sized_client_fields http_post_http dev_net_def)

lemma dev_tokens:
  "Ltime dev1 = ''t1''" "Ltime dev2 = ''t2''" "Error dev1 = []" "Error dev2 = []"
  by (simp_all add: dev1_def dev2_def)

lemma probe_empty: "ll u = [] \<Longrightarrow> probe key (Some u) = None"
  by (simp add: probe_def lru_Get_def)

lemma clearCachesIfNeeded_same: "clientLtime c = lt \<Longrightarrow> clearCachesIfNeeded lt c = c"
  by (simp add: clearCachesIfNeeded_def)

text \<open>The first lookup of a device on a client whose caches were just sized.\<close>

lemma sized_client_first_device:
  "Lookup (dev_net dev1) (sized_client n) (ByDeviceID ''nokia_generic_series40'')
     = \<lparr>ret = Some dev1, err = None,
        cl = (sized_client n)
               \<lparr>deviceCache := Some \<lparr>MaxEntries = 20000, ll = [(''nokia_generic_series40'', dev1)]\<rparr>\<rparr>,
        calls = [''http://localhost:8080/v2/lookupdeviceid/json'']\<rparr>"
proof -
  have p: "probe ''nokia_generic_series40'' (cache_of DeviceCache (sized_client n)) = None"
    by (simp add: sized_client_fields probe_empty)
  have il: "internalLookup (dev_net dev1) (sized_client n)
              (op_request (dev_net dev1) (sized_client n) (ByDeviceID ''nokia_generic_series40''))
              ''/v2/lookupdeviceid/json''
            = \<lparr>ret = Some dev1, err = None, cl = sized_client n,
               calls = [createURL (sized_client n) ''/v2/lookupdeviceid/json'']\<rparr>"
    by (rule internalLookup_ok [OF dev_net_answers dev_tokens(3)])
  have same: "clearCachesIfNeeded (Ltime dev1) (sized_client n) = sized_client n"
    by (rule clearCachesIfNeeded_same) (simp add: sized_client_fields dev_tokens)
  have st: "store ''nokia_generic_series40'' dev1 (Some \<lparr>MaxEntries = 20000, ll = []\<rparr>)
              = Some \<lparr>MaxEntries = 20000, ll = [(''nokia_generic_series40'', dev1)]\<rparr>"
    by (simp add: store_def lru_Add_def lru_Len_def Let_def)
  from cached_lookup_miss_ok [OF p il] show ?thesis
    by (simp add: Lookup_cached same st sized_client_fields)
qed

declare Lookup.simps [simp del]

theorem repeated_lookups_served_from_cache_witness:
  "Lookups [(down_net, ByDeviceID ''nokia_generic_series40''),
            (dev_net dev2, ByDeviceID ''nokia_generic_series40'')]
     (cl (Lookup (dev_net dev1) (sized_client 1000) (ByDeviceID ''nokia_generic_series40'')))
   = [\<lparr>ret = Some dev1, err = None,
       cl = (sized_client 1000)
              \<lparr>deviceCache := Some \<lparr>MaxEntries = 20000, ll = [(''nokia_generic_series40'', dev1)]\<rparr>\<rparr>,
       calls = []\<rparr>,
      \<lparr>ret = Some dev1, err = None,
       cl = (sized_client 1000)
              \<lparr>deviceCache := Some \<lparr>MaxEntries = 20000, ll = [(''nokia_generic_series40'', dev1)]\<rparr>\<rparr>,
       calls = []\<rparr>]"
proof -
  have a: "cache_of (op_cache (ByDeviceID ''nokia_generic_series40'')) (sized_client 1000)
             = Some \<lparr>MaxEntries = 20000, ll = []\<rparr>"
    by (simp add: sized_client_fields)
  have b: "0 \<le> MaxEntries \<lparr>MaxEntries = 20000, ll = ([] :: (string \<times> JSONDeviceData) list)\<rparr>"
    by simp
  have c: "err (Lookup (dev_net dev1) (sized_client 1000) (ByDeviceID ''nokia_generic_series40'')) = None"
    by (simp add: sized_client_first_device)
  have d: "list_all (same_entry (sized_client 1000)
                       (dev_net dev1, ByDeviceID ''nokia_generic_series40''))
             [(down_net, ByDeviceID ''nokia_generic_series40''),
              (dev_net dev2, ByDeviceID ''nokia_generic_series40'')]"
    by (simp add: same_entry_def)
  note w = repeated_lookups_served_from_cache [OF a b c d, THEN conjunct1]
  show ?thesis
    using w unfolding sized_client_first_device by (simp del: Lookups.simps)
qed

text \<open>
  C8 as stated fails on a client whose header cache was sized with a negative limit:
  \<open>lru.Cache.Add\<close> then evicts the entry it has just stored.  After
  \<open>SetCacheSize(-1)\<close> the header cache is there, the first lookup of a user agent
  succeeds, the cache stays empty, and the same lookup again requests the server again.
\<close>

theorem repeated_lookup_negative_limit_counterexample:
  "userAgentCache (sized_client (- 1)) \<noteq> None
 \<and> err (Lookup (dev_net dev1) (sized_client (- 1)) (ByUserAgent ''Mozilla/5.0'')) = None
 \<and> ret (Lookup (dev_net dev1) (sized_client (- 1)) (ByUserAgent ''Mozilla/5.0'')) = Some dev1
 \<and> GetActualCacheSizes
      (cl (Lookup (dev_net dev1) (sized_client (- 1)) (ByUserAgent ''Mozilla/5.0''))) = (0, 0)
 \<and> calls (Lookup (dev_net dev2)
             (cl (Lookup (dev_net dev1) (sized_client (- 1)) (ByUserAgent ''Mozilla/5.0'')))
             (ByUserAgent ''Mozilla/5.0''))
      = [''http://localhost:8080/v2/lookupuseragent/json'']
 \<and> ret (Lookup (dev_net dev2)
           (cl (Lookup (dev_net dev1) (sized_client (- 1)) (ByUserAgent ''Mozilla/5.0'')))
           (ByUserAgent ''Mozilla/5.0''))
      = Some dev2"
proof -
  let ?c = "sized_client (- 1)"
  let ?op = "ByUserAgent ''Mozilla/5.0''"
  have p: "probe (op_key env ?c ?op) (cache_of (op_cache ?op) ?c) = None" for env
    by (simp add: sized_client_fields probe_empty del: op_key.simps)
  have il: "internalLookup (dev_net d) ?c (op_request (dev_net d) ?c ?op) (op_path ?op)
            = \<lparr>ret = Some d, err = None, cl = ?c, calls = [createURL ?c (op_path ?op)]\<rparr>"
    if "Error d = []" for d
    by (rule internalLookup_ok [OF dev_net_answers that])
  have same: "clearCachesIfNeeded (Ltime dev1) ?c = ?c"
    by (rule clearCachesIfNeeded_same) (simp add: sized_client_fields dev_tokens)
  have st: "store k d (Some \<lparr>MaxEntries = - 1, ll = []\<rparr>) = Some \<lparr>MaxEntries = - 1, ll = []\<rparr>"
    for k :: string and d :: JSONDeviceData
    by (simp add: store_def lru_Add_def lru_Len_def lru_RemoveOldest_def Let_def)
  have wc: "?c\<lparr>userAgentCache := Some \<lparr>MaxEntries = - 1, ll = []\<rparr>\<rparr> = ?c"
    using with_cache_same [of HeaderCache ?c "Some \<lparr>MaxEntries = - 1, ll = []\<rparr>"]
    by (simp add: sized_client_fields)
  from cached_lookup_miss_ok [OF p il [OF dev_tokens(3)]]
  have r1: "Lookup (dev_net dev1) ?c ?op
              = \<lparr>ret = Some dev1, err = None, cl = ?c,
                 calls = [''http://localhost:8080/v2/lookupuseragent/json'']\<rparr>"
    by (simp add: Lookup_cached same st wc sized_client_fields del: op_key.simps)
  have c2: "clearCachesIfNeeded ''t2'' ?c = clearCache (?c\<lparr>clientLtime := ''t2''\<rparr>)"
    by (simp add: clearCachesIfNeeded_def sized_client_fields)
  from cached_lookup_miss_ok [OF p il [OF dev_tokens(4)]]
  have r2: "calls (Lookup (dev_net dev2) ?c ?op) = [''http://localhost:8080/v2/lookupuseragent/json'']
          \<and> ret (Lookup (dev_net dev2) ?c ?op) = Some dev2"
    by (simp add: Lookup_cached sized_client_fields del: op_key.simps)
  have sz: "GetActualCacheSizes ?c = (0, 0)"
    by (simp add: GetActualCacheSizes_def sized_client_fields lru_Len_def)
  have en: "userAgentCache ?c \<noteq> None" by (simp add: sized_client_fields)
  from r2 sz en show ?thesis by (simp add: r1)
qed

section \<open>Lookups across a reload\<close>

lemma Lookup_network_success:
  assumes "err (Lookup env c lop) = None" and "calls (Lookup env c lop) \<noteq> []"
    and "ret (Lookup env c lop) = Some d"
  shows "cl (Lookup env c lop)
           = with_cache (op_cache lop)
               (store (op_key env c lop) d (cache_of (op_cache lop) (clearCachesIfNeeded (Ltime d) c)))
               (clearCachesIfNeeded (Ltime d) c)"
proof (cases rule: Lookup_outcomes [where c = c and lop = lop and env = env])
  case (hit v u')
  with assms(2) show ?thesis by simp
next
  case (net_failed x e)
  with assms(1) show ?thesis by simp
next
  case (net_ok d')
  with assms(3) show ?thesis by simp
qed

lemma cache_size_clear_if_used:
  "(case clear_if_used cache of None \<Rightarrow> 0 | Some u \<Rightarrow> lru_Len u) = 0"
  by (cases cache) (simp_all add: clear_if_used_Some lru_Len_def, simp add: clear_if_used_def)

text \<open>
  C3, as amended.  Two consecutive lookups both reach the network and succeed; their
  responses carry non-empty reload-time tokens that differ.  Immediately after the second
  lookup the client's token is the second response's, the cache the second lookup does not
  use reports size 0, and the cache it uses holds exactly the entry the second lookup has
  just stored, so reports size 1 (nothing, and size 0, when that cache was sized with a
  negative limit).
\<close>

theorem lookup_after_reload:
  assumes "r1 = Lookup env1 c lop1" and "r2 = Lookup env2 (cl r1) lop2"
    and "cache_of (op_cache lop2) c = Some u"
    and "err r1 = None" and "calls r1 \<noteq> []" and "ret r1 = Some d1"
    and "err r2 = None" and "calls r2 \<noteq> []" and "ret r2 = Some d2"
    and "Ltime d1 \<noteq> []" and "Ltime d2 \<noteq> []" and "Ltime d2 \<noteq> Ltime d1"
  shows "clientLtime (cl r2) = Ltime d2
       \<and> cache_size (other_cache (op_cache lop2)) (cl r2) = 0
       \<and> map_option ll (cache_of (op_cache lop2) (cl r2))
           = Some (if 0 \<le> MaxEntries u then [(op_key env2 c lop2, d2)] else [])
       \<and> cache_size (op_cache lop2) (cl r2) = (if 0 \<le> MaxEntries u then 1 else 0)"
proof -
  let ?i = "op_cache lop2"
  let ?c1 = "cl r1"
  let ?c2 = "clearCachesIfNeeded (Ltime d2) ?c1"
  from Lookup_network_success [of env1 c lop1 d1] assms(1,4,5,6) assms(10)
  have lt1: "clientLtime ?c1 = Ltime d1"
    by (simp add: clientLtime_clearCachesIfNeeded)
  from assms(1,3) have "map_option MaxEntries (cache_of ?i ?c1) = Some (MaxEntries u)"
    by simp
  then obtain u1 where u1: "cache_of ?i ?c1 = Some u1" "MaxEntries u1 = MaxEntries u"
    by auto
  from Lookup_network_success [of env2 ?c1 lop2 d2] assms(2,7,8,9)
  have c2: "cl r2 = with_cache ?i (store (op_key env2 ?c1 lop2) d2 (cache_of ?i ?c2)) ?c2"
    by simp
  have key: "op_key env2 ?c1 lop2 = op_key env2 c lop2"
    by (simp add: assms(1))
  have cleared: "cache_of j ?c2 = clear_if_used (cache_of j ?c1)" for j
    using lt1 assms(11,12) by (simp add: cache_of_clearCachesIfNeeded)
  have used: "cache_of ?i (cl r2) = Some (lru_Add (op_key env2 c lop2) d2 (u1\<lparr>ll := []\<rparr>))"
    by (simp add: c2 key cleared u1 clear_if_used_Some store_def)
  have entries: "ll (lru_Add (op_key env2 c lop2) d2 (u1\<lparr>ll := []\<rparr>))
                   = (if 0 \<le> MaxEntries u then [(op_key env2 c lop2, d2)] else [])"
    using lru_Add_empty [of "u1\<lparr>ll := []\<rparr>" "op_key env2 c lop2" d2] u1(2) by simp
  have other: "cache_size (other_cache ?i) (cl r2) = 0"
    by (simp add: cache_size_def c2 cleared cache_size_clear_if_used)
  have token: "clientLtime (cl r2) = Ltime d2"
    by (simp add: c2 clientLtime_clearCachesIfNeeded assms(11))
  from token other used entries show ?thesis
    by (simp add: cache_size_def lru_Len_def)
qed

lemma dev_net_post:
  "createURL c p = ''http://localhost:8080'' @ p \<Longrightarrow>
   http_post (dev_net d) (createURL c p) req = Inr ''device''"
  by (simp add: http_post_http dev_net_def)

lemma createURL_deviceCache_update:
  "createURL (c\<lparr>deviceCache := x\<rparr>) p = createURL c p"
  by (simp add: createURL_def Let_def)

lemma sized_client_second_device:
  assumes "Error d = []" and "Ltime d \<noteq> ''t1''" and "Ltime d \<noteq> []"
  shows "Lookup (dev_net d)
       ((sized_client n)
          \<lparr>deviceCache := Some \<lparr>MaxEntries = 20000, ll = [(''nokia_generic_series40'', dev1)]\<rparr>\<rparr>)
       (ByDeviceID ''generic_opera_mini_version1'')
     = \<lparr>ret = Some d, err = None,
        cl = (sized_client n)
               \<lparr>clientLtime := Ltime d,
                userAgentCache := Some \<lparr>MaxEntries = n, ll = []\<rparr>,
                deviceCache := Some \<lparr>MaxEntries = 20000, ll = [(''generic_opera_mini_version1'', d)]\<rparr>,
                mkModels := None, deviceMakes := None, deviceMakesMap := None,
                deviceOses := None, deviceOsVerMap := None\<rparr>,
        calls = [''http://localhost:8080/v2/lookupdeviceid/json'']\<rparr>"
proof -
  let ?c = "(sized_client n)
          \<lparr>deviceCache := Some \<lparr>MaxEntries = 20000, ll = [(''nokia_generic_series40'', dev1)]\<rparr>\<rparr>"
  let ?op = "ByDeviceID ''generic_opera_mini_version1''"
  have p: "probe (op_key env ?c ?op) (cache_of (op_cache ?op) ?c) = None" for env
    by (simp add: probe_def lru_Get_def)
  have url: "createURL ?c q = ''http://localhost:8080'' @ q" for q
    by (simp add: createURL_deviceCache_update sized_client_fields)
  have il: "internalLookup (dev_net d) ?c (op_request (dev_net d) ?c ?op) (op_path ?op)
            = \<lparr>ret = Some d, err = None, cl = ?c, calls = [createURL ?c (op_path ?op)]\<rparr>"
    by (rule internalLookup_ok [OF dev_net_post [OF url] dev_net_answers(2) assms(1)])
  have cc: "clearCachesIfNeeded (Ltime d) ?c
              = (sized_client n)
                  \<lparr>clientLtime := Ltime d,
                   userAgentCache := Some \<lparr>MaxEntries = n, ll = []\<rparr>,
                   deviceCache := Some \<lparr>MaxEntries = 20000, ll = []\<rparr>,
                   mkModels := None, deviceMakes := None, deviceMakesMap := None,
                   deviceOses := None, deviceOsVerMap := None\<rparr>"
    using assms(2,3)
    by (simp add: clearCachesIfNeeded_def clearCache_def sized_client_fields clear_if_used_def
        lru_Len_def lru_Clear_def)
  have st: "store ''generic_opera_mini_version1'' d (Some \<lparr>MaxEntries = 20000, ll = []\<rparr>)
              = Some \<lparr>MaxEntries = 20000, ll = [(''generic_opera_mini_version1'', d)]\<rparr>"
    by (simp add: store_def lru_Add_def lru_Len_def Let_def)
  from cached_lookup_miss_ok [OF p il] show ?thesis
    by (simp add: Lookup_cached cc st url)
qed

lemma sized_client_second_device_no_token:
  "Lookup (dev_net dev3)
       ((sized_client n)
          \<lparr>deviceCache := Some \<lparr>MaxEntries = 20000, ll = [(''nokia_generic_series40'', dev1)]\<rparr>\<rparr>)
       (ByDeviceID ''generic_opera_mini_version1'')
     = \<lparr>ret = Some dev3, err = None,
        cl = (sized_client n)
               \<lparr>deviceCache := Some \<lparr>MaxEntries = 20000,
                                      ll = [(''generic_opera_mini_version1'', dev3),
                                            (''nokia_generic_series40'', dev1)]\<rparr>\<rparr>,
        calls = [''http://localhost:8080/v2/lookupdeviceid/json'']\<rparr>"
proof -
  let ?c = "(sized_client n)
          \<lparr>deviceCache := Some \<lparr>MaxEntries = 20000, ll = [(''nokia_generic_series40'', dev1)]\<rparr>\<rparr>"
  let ?op = "ByDeviceID ''generic_opera_mini_version1''"
  have e: "Error dev3 = []" "Ltime dev3 = []" by (simp_all add: dev3_def)
  have p: "probe (op_key env ?c ?op) (cache_of (op_cache ?op) ?c) = None" for env
    by (simp add: probe_def lru_Get_def)
  have url: "createURL ?c q = ''http://localhost:8080'' @ q" for q
    by (simp add: createURL_deviceCache_update sized_client_fields)
  have il: "internalLookup (dev_net dev3) ?c (op_request (dev_net dev3) ?c ?op) (op_path ?op)
            = \<lparr>ret = Some dev3, err = None, cl = ?c, calls = [createURL ?c (op_path ?op)]\<rparr>"
    by (rule internalLookup_ok [OF dev_net_post [OF url] dev_net_answers(2) e(1)])
  have cc: "clearCachesIfNeeded (Ltime dev3) ?c = ?c"
    by (simp add: clearCachesIfNeeded_def e)
  have st: "store ''generic_opera_mini_version1'' dev3
              (Some \<lparr>MaxEntries = 20000, ll = [(''nokia_generic_series40'', dev1)]\<rparr>)
              = Some \<lparr>MaxEntries = 20000,
                      ll = [(''generic_opera_mini_version1'', dev3),
                            (''nokia_generic_series40'', dev1)]\<rparr>"
    by (simp add: store_def lru_Add_def lru_Len_def Let_def)
  from cached_lookup_miss_ok [OF p il] show ?thesis
    by (simp add: Lookup_cached cc st url)
qed

theorem lookup_after_reload_witness:
  "clientLtime (cl (Lookup (dev_net dev2)
       (cl (Lookup (dev_net dev1) (sized_client 1000) (ByDeviceID ''nokia_generic_series40'')))
       (ByDeviceID ''generic_opera_mini_version1''))) = ''t2''
 \<and> cache_size HeaderCache (cl (Lookup (dev_net dev2)
       (cl (Lookup (dev_net dev1) (sized_client 1000) (ByDeviceID ''nokia_generic_series40'')))
       (ByDeviceID ''generic_opera_mini_version1''))) = 0
 \<and> map_option ll (cache_of DeviceCache (cl (Lookup (dev_net dev2)
       (cl (Lookup (dev_net dev1) (sized_client 1000) (ByDeviceID ''nokia_generic_series40'')))
       (ByDeviceID ''generic_opera_mini_version1''))))
     = Some [(''generic_opera_mini_version1'', dev2)]
 \<and> cache_size DeviceCache (cl (Lookup (dev_net dev2)
       (cl (Lookup (dev_net dev1) (sized_client 1000) (ByDeviceID ''nokia_generic_series40'')))
       (ByDeviceID ''generic_opera_mini_version1''))) = 1"
proof -
  let ?r1 = "Lookup (dev_net dev1) (sized_client 1000) (ByDeviceID ''nokia_generic_series40'')"
  let ?r2 = "Lookup (dev_net dev2) (cl ?r1) (ByDeviceID ''generic_opera_mini_version1'')"
  have r2: "?r2 = \<lparr>ret = Some dev2, err = None,
        cl = (sized_client 1000)
               \<lparr>clientLtime := Ltime dev2,
                userAgentCache := Some \<lparr>MaxEntries = 1000, ll = []\<rparr>,
                deviceCache := Some \<lparr>MaxEntries = 20000, ll = [(''generic_opera_mini_version1'', dev2)]\<rparr>,
                mkModels := None, deviceMakes := None, deviceMakesMap := None,
                deviceOses := None, deviceOsVerMap := None\<rparr>,
        calls = [''http://localhost:8080/v2/lookupdeviceid/json'']\<rparr>"
    unfolding sized_client_first_device result.simps
    by (rule sized_client_second_device) (simp_all add: dev_tokens)
  have u: "cache_of (op_cache (ByDeviceID ''generic_opera_mini_version1'')) (sized_client 1000)
             = Some \<lparr>MaxEntries = 20000, ll = []\<rparr>"
    by (simp add: sized_client_fields)
  have h1: "err ?r1 = None" "calls ?r1 \<noteq> []" "ret ?r1 = Some dev1"
    by (simp_all add: sized_client_first_device)
  have h2: "err ?r2 = None" "calls ?r2 \<noteq> []" "ret ?r2 = Some dev2"
    by (simp_all add: r2)
  have t: "Ltime dev1 \<noteq> []" "Ltime dev2 \<noteq> []" "Ltime dev2 \<noteq> Ltime dev1"
    by (simp_all add: dev_tokens)
  from lookup_after_reload [OF refl refl u h1 h2 t] show ?thesis
    by (simp add: dev_tokens)
qed

text \<open>
  C3 as stated fails.  On a client with both caches sized, a device is looked up and the
  response carries token \<open>t1\<close>; a second device is looked up and the response carries
  token \<open>t2\<close>.  Right after the second lookup the device-id cache reports size 1, not 0:
  the caches are cleared before the new entry is stored.  When the second response carries
  the empty token instead, nothing is cleared and the device-id cache reports size 2.
\<close>

theorem lookup_after_reload_counterexample:
  "err (Lookup (dev_net dev1) (sized_client 1000) (ByDeviceID ''nokia_generic_series40'')) = None
 \<and> map_option Ltime
      (ret (Lookup (dev_net dev1) (sized_client 1000) (ByDeviceID ''nokia_generic_series40'')))
     = Some ''t1''
 \<and> err (Lookup (dev_net dev2)
       (cl (Lookup (dev_net dev1) (sized_client 1000) (ByDeviceID ''nokia_generic_series40'')))
       (ByDeviceID ''generic_opera_mini_version1'')) = None
 \<and> map_option Ltime (ret (Lookup (dev_net dev2)
       (cl (Lookup (dev_net dev1) (sized_client 1000) (ByDeviceID ''nokia_generic_series40'')))
       (ByDeviceID ''generic_opera_mini_version1''))) = Some ''t2''
 \<and> GetActualCacheSizes (cl (Lookup (dev_net dev2)
       (cl (Lookup (dev_net dev1) (sized_client 1000) (ByDeviceID ''nokia_generic_series40'')))
       (ByDeviceID ''generic_opera_mini_version1''))) = (1, 0)
 \<and> err (Lookup (dev_net dev3)
       (cl (Lookup (dev_net dev1) (sized_client 1000) (ByDeviceID ''nokia_generic_series40'')))
       (ByDeviceID ''generic_opera_mini_version1'')) = None
 \<and> map_option Ltime (ret (Lookup (dev_net dev3)
       (cl (Lookup (dev_net dev1) (sized_client 1000) (ByDeviceID ''nokia_generic_series40'')))
       (ByDeviceID ''generic_opera_mini_version1''))) = Some []
 \<and> GetActualCacheSizes (cl (Lookup (dev_net dev3)
       (cl (Lookup (dev_net dev1) (sized_client 1000) (ByDeviceID ''nokia_generic_series40'')))
       (ByDeviceID ''generic_opera_mini_version1''))) = (2, 0)"
proof -
  let ?r1 = "Lookup (dev_net dev1) (sized_client 1000) (ByDeviceID ''nokia_generic_series40'')"
  have r2: "Lookup (dev_net dev2) (cl ?r1) (ByDeviceID ''generic_opera_mini_version1'')
      = \<lparr>ret = Some dev2, err = None,
        cl = (sized_client 1000)
               \<lparr>clientLtime := Ltime dev2,
                userAgentCache := Some \<lparr>MaxEntries = 1000, ll = []\<rparr>,
                deviceCache := Some \<lparr>MaxEntries = 20000, ll = [(''generic_opera_mini_version1'', dev2)]\<rparr>,
                mkModels := None, deviceMakes := None, deviceMakesMap := None,
                deviceOses := None, deviceOsVerMap := None\<rparr>,
        calls = [''http://localhost:8080/v2/lookupdeviceid/json'']\<rparr>"
    unfolding sized_client_first_device result.simps
    by (rule sized_client_second_device) (simp_all add: dev_tokens)
  have r3: "Lookup (dev_net dev3) (cl ?r1) (ByDeviceID ''generic_opera_mini_version1'')
     = \<lparr>ret = Some dev3, err = None,
        cl = (sized_client 1000)
               \<lparr>deviceCache := Some \<lparr>MaxEntries = 20000,
                                      ll = [(''generic_opera_mini_version1'', dev3),
                                            (''nokia_generic_series40'', dev1)]\<rparr>\<rparr>,
        calls = [''http://localhost:8080/v2/lookupdeviceid/json'']\<rparr>"
    unfolding sized_client_first_device result.simps
    by (rule sized_client_second_device_no_token)
  have t3: "Ltime dev3 = []" by (simp add: dev3_def)
  show ?thesis
    unfolding r2 r3
    by (simp add: sized_client_first_device dev_tokens t3 GetActualCacheSizes_def lru_Len_def
        sized_client_fields)
qed

section \<open>What the caches hold\<close>

lemma error_free_nil [simp]: "error_free None"
  by (simp add: error_free_def)

lemma clear_if_used_nil [simp]: "clear_if_used None = None"
  by (simp add: clear_if_used_def)

lemma error_free_clear_if_used: "error_free cache \<Longrightarrow> error_free (clear_if_used cache)"
  by (cases cache) (simp_all add: clear_if_used_Some error_free_def)

lemma set_butlast_subset: "set (butlast xs) \<subseteq> set xs"
  by (induction xs) auto

lemma lru_Add_entries: "set (ll (lru_Add key d u)) \<subseteq> insert (key, d) (set (ll u))"
proof (cases "map_of (ll u) key")
  case None
  have "set (butlast ((key, d) # ll u)) \<subseteq> insert (key, d) (set (ll u))"
    using set_butlast_subset [of "(key, d) # ll u"] by simp
  with None show ?thesis
    by (auto simp: lru_Add_def lru_RemoveOldest_def Let_def)
next
  case (Some old)
  then show ?thesis
    using set_remove1_subset [of "(key, old)" "ll u"] by (auto simp: lru_Add_def)
qed

lemma error_free_store:
  assumes "error_free cache" and "Error d = []"
  shows "error_free (store key d cache)"
proof (cases cache)
  case None
  then show ?thesis by (simp add: store_def)
next
  case (Some u)
  with assms lru_Add_entries [of key d u] show ?thesis
    by (auto simp: store_def error_free_def list_all_iff)
qed

lemma error_free_clearCachesIfNeeded:
  "error_free (cache_of i c) \<Longrightarrow> error_free (cache_of i (clearCachesIfNeeded lt c))"
  by (simp add: cache_of_clearCachesIfNeeded error_free_clear_if_used)

lemma error_free_clearCache:
  "error_free (cache_of i c) \<Longrightarrow> error_free (cache_of i (clearCache c))"
  by (simp add: cache_of_clearCache error_free_clear_if_used)

lemma probe_hit_entry:
  assumes "probe key cache = Some (v, u')"
  shows "\<exists>u. cache = Some u \<and> (key, v) \<in> set (ll u) \<and> set (ll u') \<subseteq> set (ll u)"
proof (cases cache)
  case None
  with assms show ?thesis by (simp add: probe_def)
next
  case (Some u)
  with assms have g: "lru_Get key u = (Some v, u')"
    by (cases "lru_Get key u") (auto simp: probe_def split: option.splits)
  then have m: "map_of (ll u) key = Some v"
    by (auto simp: lru_Get_def split: option.splits)
  then have "(key, v) \<in> set (ll u)" by (rule map_of_SomeD)
  with lru_Get_hit [OF g] Some set_remove1_subset [of "(key, v)" "ll u"] show ?thesis
    by auto
qed

lemma error_free_with_cache:
  "error_free x \<Longrightarrow> error_free (cache_of j c) \<Longrightarrow> error_free (cache_of j (with_cache i x c))"
  by (cases i; cases j) simp_all

lemma error_free_Lookup:
  assumes "\<And>j. error_free (cache_of j c)"
  shows "error_free (cache_of j (cl (Lookup env c lop)))"
proof (cases rule: Lookup_outcomes [where c = c and lop = lop and env = env])
  case (hit v u')
  from probe_hit_entry [OF hit(1)] assms [of "op_cache lop"]
  have "error_free (Some u')"
    by (fastforce simp: error_free_def list_all_iff)
  with hit(2) assms [of j] show ?thesis
    by (simp add: error_free_with_cache)
next
  case (net_failed x e)
  with assms [of j] show ?thesis by simp
next
  case (net_ok d)
  let ?c1 = "clearCachesIfNeeded (Ltime d) c"
  have "error_free (store (op_key env c lop) d (cache_of (op_cache lop) ?c1))"
    by (rule error_free_store [OF error_free_clearCachesIfNeeded [OF assms] net_ok(2)])
  with net_ok(3) error_free_clearCachesIfNeeded [OF assms, of j "Ltime d"] show ?thesis
    by (simp add: error_free_with_cache)
qed

lemma new_client_caches: "cache_of i (new_client Scheme Host Port BaseURI) = None"
  by (cases i) (simp_all add: new_client_def zero_WmClient_def)

lemma error_free_GetInfo:
  "error_free (cache_of i c) \<Longrightarrow> error_free (cache_of i (cl (GetInfo env c)))"
proof (cases "internalGet env c ''/v2/getinfo/json''")
  case (Inl berr)
  assume "error_free (cache_of i c)"
  with GetInfo_get_fails [OF Inl] show ?thesis by simp
next
  case (Inr body)
  note get = this
  assume ef: "error_free (cache_of i c)"
  show ?thesis
  proof (cases "unmarshal_info env body")
    case (Inl merror)
    with ef GetInfo_decode_fails [OF get Inl] show ?thesis by simp
  next
    case (Inr info)
    show ?thesis
    proof (cases "checkData info")
      case True
      with ef GetInfo_ok [OF get Inr True] show ?thesis
        by (simp add: error_free_clearCachesIfNeeded)
    next
      case False
      with ef GetInfo_bad_data [OF get Inr False] show ?thesis by simp
    qed
  qed
qed

lemma cache_of_registry_update [simp]:
  "cache_of i (c\<lparr>ImportantHeaders := h, StaticCaps := s, VirtualCaps := v\<rparr>) = cache_of i c"
  "cache_of i (c\<lparr>StaticCaps := s, VirtualCaps := v, ImportantHeaders := h\<rparr>) = cache_of i c"
  by (cases i; simp)+

lemma error_free_Create:
  assumes "Create env Scheme Host Port BaseURI = (Some c, None)"
  shows "error_free (cache_of i c)"
proof -
  let ?r = "GetInfo env (new_client Scheme Host Port BaseURI)"
  have ef: "error_free (cache_of i (cl ?r))"
    by (rule error_free_GetInfo) (simp add: new_client_caches)
  show ?thesis
  proof (cases "err ?r")
    case (Some e)
    with assms show ?thesis by (simp add: Create_unfold)
  next
    case None
    note no_err = this
    show ?thesis
    proof (cases "ret ?r")
      case None
      with assms no_err show ?thesis by (simp add: Create_unfold)
    next
      case (Some data)
      with assms no_err have
        "c = (cl ?r)\<lparr>ImportantHeaders := important_headers data,
                      StaticCaps := sort_Strings (static_caps data),
                      VirtualCaps := sort_Strings (virtual_caps data)\<rparr>"
        by (simp add: Create_unfold)
      with ef show ?thesis by simp
    qed
  qed
qed

lemma error_free_SetCacheSize: "error_free (cache_of i (SetCacheSize n c))"
  by (cases i) (simp_all add: SetCacheSize_def lru_New_def error_free_def)

lemma cache_of_requested_update [simp]:
  "cache_of i (c\<lparr>requestedStaticCaps := x\<rparr>) = cache_of i c"
  "cache_of i (c\<lparr>requestedVirtualCaps := y\<rparr>) = cache_of i c"
  by (cases i; simp)+

lemma error_free_SetRequestedStaticCapabilities:
  "error_free (cache_of i c) \<Longrightarrow> error_free (cache_of i (SetRequestedStaticCapabilities x c))"
  by (auto simp: SetRequestedStaticCapabilities_def Let_def cache_of_clearCache
      error_free_clear_if_used split: option.splits)

lemma error_free_SetRequestedVirtualCapabilities:
  "error_free (cache_of i c) \<Longrightarrow> error_free (cache_of i (SetRequestedVirtualCapabilities x c))"
  by (auto simp: SetRequestedVirtualCapabilities_def Let_def cache_of_clearCache
      error_free_clear_if_used split: option.splits)

lemma error_free_SetRequestedCapabilities:
  "error_free (cache_of i c) \<Longrightarrow> error_free (cache_of i (SetRequestedCapabilities x c))"
  by (auto simp: SetRequestedCapabilities_def Let_def cache_of_clearCache
      error_free_clear_if_used split: option.splits)

text \<open>The table operations do not touch the caches.\<close>

lemma cache_of_oses_update [simp]:
  "cache_of i (c\<lparr>deviceOsVerMap := m, deviceOses := l\<rparr>) = cache_of i c"
  by (cases i; simp)

lemma cache_of_makes_update [simp]:
  "cache_of i (c\<lparr>deviceMakesMap := m', deviceMakes := l'\<rparr>) = cache_of i c"
  by (cases i; simp)

lemma cache_of_loadDeviceOsesData: "cache_of i (cl (loadDeviceOsesData env c)) = cache_of i c"
proof (cases "0 < len (deviceOses c)")
  case True
  then show ?thesis by (simp add: load_oses_loaded)
next
  case False
  then have l0: "len (deviceOses c) = 0" by simp
  show ?thesis
  proof (cases "internalGet env c ''/v2/alldeviceosversions/json''")
    case (Inl berr)
    from load_oses_get_fails [OF l0 Inl] show ?thesis by simp
  next
    case (Inr body)
    note get = this
    show ?thesis
    proof (cases "unmarshal_oses env body")
      case (Inl merror)
      from load_oses_decode_fails [OF l0 get Inl] show ?thesis by simp
    next
      case (Inr models)
      from load_oses_builds [OF l0 get Inr] show ?thesis by simp
    qed
  qed
qed

lemma cache_of_loadDeviceMakesData: "cache_of i (cl (loadDeviceMakesData env c)) = cache_of i c"
proof (cases "0 < len (deviceMakes c)")
  case True
  then show ?thesis by (simp add: load_makes_loaded)
next
  case False
  then have l0: "len (deviceMakes c) = 0" by simp
  show ?thesis
  proof (cases "internalGet env c ''/v2/alldevices/json''")
    case (Inl berr)
    from load_makes_get_fails [OF l0 Inl] show ?thesis by simp
  next
    case (Inr body)
    note get = this
    show ?thesis
    proof (cases "unmarshal_makes env body")
      case (Inl merror)
      from load_makes_decode_fails [OF l0 get Inl] show ?thesis by simp
    next
      case (Inr models)
      from load_makes_builds [OF l0 get Inr] show ?thesis by simp
    qed
  qed
qed

lemma cl_table_operations:
  "cl (GetAllOSes env c) = cl (loadDeviceOsesData env c)"
  "cl (GetAllVersionsForOS env c osName) = cl (loadDeviceOsesData env c)"
  "cl (GetAllDeviceMakes env c) = cl (loadDeviceMakesData env c)"
  "cl (GetAllDevicesForMake env c brandName) = cl (loadDeviceMakesData env c)"
  by (simp_all add: GetAllOSes_def GetAllVersionsForOS_def GetAllDeviceMakes_def
      GetAllDevicesForMake_def Let_def split: option.splits)

text \<open>No client a caller can hold has an object with an error message in a cache.\<close>

lemma reachable_error_free: "reachable c \<Longrightarrow> error_free (cache_of i c)"
proof (induction arbitrary: i rule: reachable.induct)
  case (created env Scheme Host Port BaseURI c)
  then show ?case by (rule error_free_Create)
next
  case (looked_up c env lop)
  show ?case by (rule error_free_Lookup) (rule looked_up.IH)
next
  case (cache_sized c uaMaxEntries)
  show ?case by (rule error_free_SetCacheSize)
next
  case (requested_static c CapsList)
  show ?case by (rule error_free_SetRequestedStaticCapabilities) (rule requested_static.IH)
next
  case (requested_virtual c CapsList)
  show ?case by (rule error_free_SetRequestedVirtualCapabilities) (rule requested_virtual.IH)
next
  case (requested c CapsList)
  show ?case by (rule error_free_SetRequestedCapabilities) (rule requested.IH)
next
  case (got_info c env)
  show ?case by (rule error_free_GetInfo) (rule got_info.IH)
next
  case (got_oses c env)
  from got_oses.IH [of i] show ?case
    by (simp add: cl_table_operations cache_of_loadDeviceOsesData)
next
  case (got_versions c env osName)
  from got_versions.IH [of i] show ?case
    by (simp add: cl_table_operations cache_of_loadDeviceOsesData)
next
  case (got_makes c env)
  from got_makes.IH [of i] show ?case
    by (simp add: cl_table_operations cache_of_loadDeviceMakesData)
next
  case (got_devices c env brandName)
  from got_devices.IH [of i] show ?case
    by (simp add: cl_table_operations cache_of_loadDeviceMakesData)
next
  case (exported c s v h)
  from exported.IH [of i] show ?case by simp
qed

text \<open>
  C10.  The object \<open>internalLookup\<close> returns always has an empty \<open>Error\<close> field: a
  server-embedded message is moved into the Go error and the field is blanked.  And on
  every client a caller can hold, every object any of the four lookups returns, fresh from
  the network or out of a cache, with or without an error beside it, has an empty
  \<open>Error\<close> field.
\<close>

theorem returned_device_has_empty_Error:
  "(ret (internalLookup env c0 request path) = Some d0 \<longrightarrow> Error d0 = [])
 \<and> (reachable c \<and> ret (Lookup env c lop) = Some d \<longrightarrow> Error d = [])"
proof (intro conjI impI)
  assume "ret (internalLookup env c0 request path) = Some d0"
  then show "Error d0 = []" by (rule internalLookup_blanks_Error)
next
  assume a: "reachable c \<and> ret (Lookup env c lop) = Some d"
  show "Error d = []"
  proof (cases rule: Lookup_outcomes [where c = c and lop = lop and env = env])
    case (hit v u')
    from probe_hit_entry [OF hit(1)] reachable_error_free [of c "op_cache lop"] a
    have "Error v = []"
      by (fastforce simp: error_free_def list_all_iff)
    with hit(2) a show ?thesis by simp
  next
    case (net_failed x e)
    with a show ?thesis by simp
  next
    case (net_ok d')
    with a show ?thesis by simp
  qed
qed

lemma Create_info_net:
  "Create info_net [] ''localhost'' ''8080'' [] = (Some created_client, None)"
proof -
  note ok = GetInfo_ok [OF info_net_handshake info1_ok]
  have s: "sort_Strings (static_caps info1) = Some [''brand_name'', ''model_name'']"
          "sort_Strings (virtual_caps info1) = Some [''is_ios'']"
    unfolding sort_Strings_def info1_def by code_simp+
  have i: "important_headers info1 = Some [''User-Agent'']" "ltime info1 = ''t1''"
    by (simp_all add: info1_def)
  have c: "clearCachesIfNeeded ''t1'' (new_client [] ''localhost'' ''8080'' [])
             = zero_WmClient\<lparr>scheme := ''http'', host := ''localhost'', port := ''8080'',
                             clientLtime := ''t1''\<rparr>"
    by (simp add: clearCachesIfNeeded_def clearCache_def new_client_def zero_WmClient_def)
  show ?thesis
    by (simp add: Create_unfold ok s i c created_client_def)
qed

theorem returned_device_has_empty_Error_witness:
  "ret (internalLookup app_error_net created_client
          (op_request app_error_net created_client (ByDeviceID ''nokia_generic_series40_wrong''))
          ''/v2/lookupdeviceid/json'')
     = Some (app_error_dev\<lparr>Error := []\<rparr>)
 \<and> reachable created_client
 \<and> ret (Lookup app_error_net created_client (ByDeviceID ''nokia_generic_series40_wrong''))
     = Some (app_error_dev\<lparr>Error := []\<rparr>)
 \<and> err (Lookup app_error_net created_client (ByDeviceID ''nokia_generic_series40_wrong''))
     = Some (errors_New ''Received error from WM server: device is missing'')
 \<and> Error (app_error_dev\<lparr>Error := []\<rparr>) = []"
proof -
  let ?op = "ByDeviceID ''nokia_generic_series40_wrong''"
  have n: "http_post app_error_net (createURL created_client (op_path ?op))
             (op_request app_error_net created_client ?op) = Inr ''device''"
          "unmarshal_device app_error_net ''device'' = Inr app_error_dev"
    by (simp_all add: created_client_url http_post_http app_error_net_def)
  have e: "Error app_error_dev \<noteq> []" "Error app_error_dev = ''device is missing''"
    by (simp_all add: app_error_dev_def)
  note il = internalLookup_app_error [OF n e(1)]
  have p: "probe (op_key app_error_net created_client ?op) (cache_of (op_cache ?op) created_client) = None"
    by (simp add: created_client_caches probe_nil)
  from il have "err (internalLookup app_error_net created_client (op_request app_error_net created_client ?op)
                  (op_path ?op))
                = Some (errors_New (''Received error from WM server: '' @ Error app_error_dev))"
    by simp
  from cached_lookup_miss_error [OF p this]
  have lk: "Lookup app_error_net created_client ?op
              = internalLookup app_error_net created_client (op_request app_error_net created_client ?op)
                  (op_path ?op)"
    by (simp add: Lookup_cached)
  have r: "reachable created_client"
    by (rule reachable.created [OF Create_info_net])
  from returned_device_has_empty_Error
         [of app_error_net created_client "op_request app_error_net created_client ?op"
             "''/v2/lookupdeviceid/json''" "app_error_dev\<lparr>Error := []\<rparr>"
             created_client ?op "app_error_dev\<lparr>Error := []\<rparr>"]
       r il
  show ?thesis
    by (simp add: lk e)
qed

section \<open>Header fingerprints\<close>

lemma lowerKeyMap_fold:
  "fold (\<lambda>(k, v) m. m(strings_ToLower env k \<mapsto> v)) hs m
     = m ++ map_of (rev (map (\<lambda>(k, v). (strings_ToLower env k, v)) hs))"
proof (induction hs arbitrary: m)
  case Nil
  show ?case by simp
next
  case (Cons h hs)
  obtain k v where h: "h = (k, v)" by (cases h)
  let ?M = "map_of (rev (map (\<lambda>(k, v). (strings_ToLower env k, v)) hs))"
  have "fold (\<lambda>(k, v) m. m(strings_ToLower env k \<mapsto> v)) (h # hs) m
          = fold (\<lambda>(k, v) m. m(strings_ToLower env k \<mapsto> v)) hs (m(strings_ToLower env k \<mapsto> v))"
    by (simp add: h)
  also have "\<dots> = m(strings_ToLower env k \<mapsto> v) ++ ?M"
    by (rule Cons.IH)
  also have "\<dots> = m ++ ([strings_ToLower env k \<mapsto> v] ++ ?M)"
    by (auto simp: map_add_def fun_eq_iff split: option.splits)
  also have "[strings_ToLower env k \<mapsto> v] ++ ?M
               = map_of (rev (map (\<lambda>(k, v). (strings_ToLower env k, v)) (h # hs)))"
    by (simp add: h)
  finally show ?case .
qed

lemma lowerKeyMap_map_of:
  "lowerKeyMap env hs = map_of (rev (map (\<lambda>(k, v). (strings_ToLower env k, v)) hs))"
  by (simp add: lowerKeyMap_def lowerKeyMap_fold)

lemma map_of_filter_key:
  "map_of (filter (\<lambda>(k, v). P k) xs) k' = (if P k' then map_of xs k' else None)"
  by (induction xs) auto

lemma important_part_filter:
  "important_part env c hs
     = filter (\<lambda>(k, v). k \<in> strings_ToLower env ` set (elems (ImportantHeaders c)))
         (map (\<lambda>(k, v). (strings_ToLower env k, v)) hs)"
  by (induction hs) (auto simp: important_part_def important_def)

lemma lowerKeyMap_important:
  assumes "name \<in> set (elems (ImportantHeaders c))"
  shows "lowerKeyMap env hs (strings_ToLower env name)
           = map_of (rev (important_part env c hs)) (strings_ToLower env name)"
  using assms
  by (simp add: lowerKeyMap_map_of important_part_filter rev_filter map_of_filter_key)

lemma map_of_rev_distinct:
  "distinct (map fst xs) \<Longrightarrow> map_of (rev xs) = map_of xs"
  by (subst map_of_inject_set) (simp_all add: rev_map [symmetric])

lemma copy_headers_cong:
  assumes "\<And>name. name \<in> set names \<Longrightarrow> f name = g name"
  shows "copy_headers f names = copy_headers g names"
  unfolding copy_headers_def
  by (rule fold_cong) (simp_all add: assms)

text \<open>
  C2, as amended.  Two header maps, in neither of which two important header names are
  equal up to case, and which have the same important entries once names are put in lower
  case: they may differ in the case of names, in the order of entries and in any headers that
  are not important.  Lower case is what \<open>strings.ToLower\<close> makes of a name, whatever
  function that is.  \<open>LookupHeaders\<close> derives the same cache key from both, and sends
  the same request for both.
\<close>

theorem header_fingerprint_invariant:
  assumes "distinct (map fst (important_part env c hs1))"
    and "distinct (map fst (important_part env c hs2))"
    and "set (important_part env c hs1) = set (important_part env c hs2)"
  shows "op_key env c (ByHeaders hs1) = op_key env c (ByHeaders hs2)
       \<and> op_request env c (ByHeaders hs1) = op_request env c (ByHeaders hs2)"
proof -
  have "map_of (rev (important_part env c hs1)) = map_of (important_part env c hs1)"
    by (rule map_of_rev_distinct [OF assms(1)])
  moreover have "map_of (rev (important_part env c hs2)) = map_of (important_part env c hs2)"
    by (rule map_of_rev_distinct [OF assms(2)])
  moreover have "map_of (important_part env c hs1) = map_of (important_part env c hs2)"
    using assms by (simp add: map_of_inject_set)
  ultimately have "lowerKeyMap env hs1 (strings_ToLower env name) = lowerKeyMap env hs2 (strings_ToLower env name)"
    if "name \<in> set (elems (ImportantHeaders c))" for name
    using that by (simp add: lowerKeyMap_important)
  then have "copy_headers (\<lambda>name. map_get (lowerKeyMap env hs1) (strings_ToLower env name))
               (elems (ImportantHeaders c))
           = copy_headers (\<lambda>name. map_get (lowerKeyMap env hs2) (strings_ToLower env name))
               (elems (ImportantHeaders c))"
    by (intro copy_headers_cong) (simp add: map_get_def)
  then show ?thesis
    by (simp add: op_key_simps op_request_simps del: op_key.simps)
qed

lemma md5_a: "hex_EncodeToString (md5_Sum ''a'') = ''0cc175b9c0f1b6a831c399e269772661''"
  by code_simp

lemma md5_b: "hex_EncodeToString (md5_Sum ''b'') = ''92eb5ffee6ae2fec3ad71c777531578f''"
  by code_simp

lemma created_client_headers: "elems (ImportantHeaders created_client) = [''User-Agent'']"
  by (simp add: created_client_def elems_def)

lemma key_material_ab:
  "map_get (copy_headers (\<lambda>name. map_get (lowerKeyMap down_net headers_ab) (strings_ToLower down_net name))
              [''User-Agent'']) ''User-Agent'' = ''b''"
  by code_simp

lemma key_material_ba:
  "map_get (copy_headers (\<lambda>name. map_get (lowerKeyMap down_net headers_ba) (strings_ToLower down_net name))
              [''User-Agent'']) ''User-Agent'' = ''a''"
  by code_simp

text \<open>
  C2 as stated fails for a map with two keys that differ in case only.  The map
  \<open>{User-Agent: a, user-agent: b}\<close> is visited by \<open>range\<close> in either order; the later
  entry wins in \<open>lowerKeyMap\<close>, so one order gives the key of \<open>b\<close> and the other the
  key of \<open>a\<close>.  The names are ASCII, where \<open>strings.ToLower\<close> is
  \<^const>\<open>ascii_ToLower\<close>.
\<close>

theorem header_fingerprint_order_counterexample:
  "distinct (map fst headers_ab) \<and> distinct (map fst headers_ba)
 \<and> set headers_ab = set headers_ba
 \<and> op_key down_net created_client (ByHeaders headers_ab) = ''92eb5ffee6ae2fec3ad71c777531578f''
 \<and> op_key down_net created_client (ByHeaders headers_ba) = ''0cc175b9c0f1b6a831c399e269772661''"
proof -
  have d: "distinct (map fst headers_ab)" "distinct (map fst headers_ba)"
          "set headers_ab = set headers_ba"
    by (auto simp: headers_ab_def headers_ba_def)
  have k1: "op_key down_net created_client (ByHeaders headers_ab) = ''92eb5ffee6ae2fec3ad71c777531578f''"
    by (simp add: op_key_simps getUserAgentCacheKey_def created_client_headers key_material_ab md5_b
        del: op_key.simps)
  have k2: "op_key down_net created_client (ByHeaders headers_ba) = ''0cc175b9c0f1b6a831c399e269772661''"
    by (simp add: op_key_simps getUserAgentCacheKey_def created_client_headers key_material_ba md5_a
        del: op_key.simps)
  from d k1 k2 show ?thesis by simp
qed

lemma important_part_mixed:
  "important_part down_net created_client headers_mixed1 = [(''user-agent'', ''a'')]"
  "important_part down_net created_client headers_mixed2 = [(''user-agent'', ''a'')]"
  unfolding important_part_def important_def created_client_headers
    headers_mixed1_def headers_mixed2_def
  by code_simp+

lemma key_material_mixed1:
  "map_get (copy_headers (\<lambda>name. map_get (lowerKeyMap down_net headers_mixed1) (strings_ToLower down_net name))
              [''User-Agent'']) ''User-Agent'' = ''a''"
  by code_simp

theorem header_fingerprint_invariant_witness:
  "distinct (map fst (important_part down_net created_client headers_mixed1))
 \<and> distinct (map fst (important_part down_net created_client headers_mixed2))
 \<and> set (important_part down_net created_client headers_mixed1)
      = set (important_part down_net created_client headers_mixed2)
 \<and> op_key down_net created_client (ByHeaders headers_mixed1) = ''0cc175b9c0f1b6a831c399e269772661''
 \<and> op_key down_net created_client (ByHeaders headers_mixed2) = ''0cc175b9c0f1b6a831c399e269772661''"
proof -
  have h: "distinct (map fst (important_part down_net created_client headers_mixed1))"
          "distinct (map fst (important_part down_net created_client headers_mixed2))"
          "set (important_part down_net created_client headers_mixed1)
             = set (important_part down_net created_client headers_mixed2)"
    by (simp_all add: important_part_mixed)
  have k1: "op_key down_net created_client (ByHeaders headers_mixed1) = ''0cc175b9c0f1b6a831c399e269772661''"
    by (simp add: op_key_simps getUserAgentCacheKey_def created_client_headers key_material_mixed1
        md5_a del: op_key.simps)
  from header_fingerprint_invariant [OF h] k1 h show ?thesis by simp
qed

end
